theory Spec2Isabelle
  imports Main "HOL-Library.Multiset"
begin

section \<open>Course schedule plugin: calendar parser, schedule resolver, roster aggregator\<close>

text \<open>
  A shallow embedding of \<^verbatim>\<open>main.py\<close>: the parser \<^verbatim>\<open>_parse_ics_file\<close>, the single-user
  query \<^verbatim>\<open>show_today_schedule\<close>, the group query \<^verbatim>\<open>show_group_schedule\<close> and the status
  that \<^verbatim>\<open>_generate_schedule_image\<close> writes in the row of a record.

  What the code obtains from libraries is an input of the model: the outcome of opening,
  decoding and decoding-as-calendar of a file (\<^verbatim>\<open>open\<close>, \<^verbatim>\<open>f.read\<close>, \<^verbatim>\<open>Calendar.from_ical\<close>,
  \<^verbatim>\<open>cal.walk\<close>), the file system (\<^verbatim>\<open>os.path.exists\<close>), the table of bindings
  (\<^verbatim>\<open>self.user_data\<close>) and the clock (\<^verbatim>\<open>datetime.now\<close>).
\<close>

subsection \<open>Time\<close>

text \<open>
  A Python \<^verbatim>\<open>datetime\<close> holds wall-clock fields (year, month, day, hour, minute, second,
  microsecond) and an optional \<^verbatim>\<open>tzinfo\<close>. The wall-clock fields are modelled by the one
  number they encode: the microseconds of the wall clock since 0001-01-01T00:00:00, so two
  values have the same seven fields exactly when they have the same \<open>wall\<close>. A fixed-offset
  \<^verbatim>\<open>timezone(timedelta(...))\<close> is modelled by its offset in microseconds. A \<^verbatim>\<open>date\<close> holds a day
  number only. Python keeps the years of a \<^verbatim>\<open>datetime\<close> within 1..9999: arithmetic whose
  result leaves that range raises an \<^verbatim>\<open>OverflowError\<close>.
\<close>

type_synonym timedelta = int

text \<open>The exceptions that reach the two queries.\<close>

datatype error =
  OSError | UnicodeDecodeError | ValueError | AttributeError | TypeError | OverflowError

definition timedelta_hours :: "int \<Rightarrow> timedelta" where
  "timedelta_hours h = h * 3600000000"

definition timedelta_days :: "int \<Rightarrow> timedelta" where
  "timedelta_days d = d * 86400000000"

text \<open>An aware datetime: every datetime the parser stores and the clock value \<^verbatim>\<open>now\<close>.\<close>

record datetime =
  wall :: int
  utcoffset :: timedelta

text \<open>The value \<^verbatim>\<open>.dt\<close> of a DTSTART or DTEND property: a \<^verbatim>\<open>date\<close> (an all-day value), or a
  \<^verbatim>\<open>datetime\<close> whose \<^verbatim>\<open>tzinfo\<close> is \<^verbatim>\<open>None\<close> (naive) or a time zone with the given offset.\<close>

datatype ical_dt = PyDate int | PyDateTime int "timedelta option"

text \<open>\<^verbatim>\<open>timezone(timedelta(hours=8))\<close>\<close>

definition shanghai_tz :: timedelta where
  "shanghai_tz = timedelta_hours 8"

text \<open>The absolute instant of an aware datetime (its UTC wall clock). Python compares and
  subtracts aware datetimes by it.\<close>

definition utc :: "datetime \<Rightarrow> int" where
  "utc d = wall d - utcoffset d"

definition dt_le :: "datetime \<Rightarrow> datetime \<Rightarrow> bool" where
  "dt_le a b = (utc a \<le> utc b)"

definition dt_lt :: "datetime \<Rightarrow> datetime \<Rightarrow> bool" where
  "dt_lt a b = (utc a < utc b)"

text \<open>\<^verbatim>\<open>a - b\<close> on aware datetimes.\<close>

definition dt_sub :: "datetime \<Rightarrow> datetime \<Rightarrow> timedelta" where
  "dt_sub a b = utc a - utc b"

text \<open>The field \<^verbatim>\<open>.seconds\<close> of a \<^verbatim>\<open>timedelta\<close>: the whole seconds within its last day (a
  \<^verbatim>\<open>timedelta\<close> is kept as days, seconds below 86400 and microseconds below 1000000).\<close>

definition td_seconds :: "timedelta \<Rightarrow> int" where
  "td_seconds d = (d div 1000000) mod 86400"

definition timedelta_minutes :: "int \<Rightarrow> timedelta" where
  "timedelta_minutes m = m * 60000000"

text \<open>\<^verbatim>\<open>d.date()\<close>: the day of the wall-clock fields, in the datetime's own offset.\<close>

definition date :: "datetime \<Rightarrow> int" where
  "date d = wall d div timedelta_days 1"

text \<open>The wall clocks of the years 1..9999: from 0001-01-01T00:00:00 up to the last
  microsecond of 9999-12-31, which is the 3652059th day of the calendar.\<close>

definition in_range :: "int \<Rightarrow> bool" where
  "in_range w \<longleftrightarrow> 0 \<le> w \<and> w < timedelta_days 3652059"

text \<open>\<^verbatim>\<open>d.astimezone(tz)\<close> on an aware datetime: \<^verbatim>\<open>(d - offset).replace(tzinfo=tz)\<close>, then
  \<^verbatim>\<open>tz.fromutc\<close>, which adds the offset of \<open>tz\<close>. The result is the same instant, shown in
  \<open>tz\<close>; each of the two steps raises an \<^verbatim>\<open>OverflowError\<close> when its result is out of range.\<close>

definition astimezone :: "int \<Rightarrow> timedelta \<Rightarrow> timedelta \<Rightarrow> error + datetime" where
  "astimezone w off tz =
     (if \<not> in_range (w - off) then Inl OverflowError
      else if \<not> in_range ((w - off) + tz) then Inl OverflowError
      else Inr \<lparr>wall = (w - off) + tz, utcoffset = tz\<rparr>)"

text \<open>\<^verbatim>\<open>d.replace(tzinfo=tz)\<close> on a datetime: the fields stay, the zone is attached.\<close>

definition replace_tzinfo :: "int \<Rightarrow> timedelta \<Rightarrow> datetime" where
  "replace_tzinfo w tz = \<lparr>wall = w, utcoffset = tz\<rparr>"

text \<open>\<^verbatim>\<open>datetime.now(shanghai_tz)\<close>, the clock being the current UTC instant.\<close>

definition datetime_now :: "int \<Rightarrow> datetime" where
  "datetime_now clock = \<lparr>wall = clock + shanghai_tz, utcoffset = shanghai_tz\<rparr>"

subsection \<open>The parser\<close>

text \<open>A component of \<^verbatim>\<open>cal.walk()\<close>: its name and what \<^verbatim>\<open>component.get\<close> returns for the five
  properties read (\<open>None\<close> when the property is absent).\<close>

record component =
  name :: string
  prop_summary :: "string option"
  prop_description :: "string option"
  prop_location :: "string option"
  prop_dtstart :: "ical_dt option"
  prop_dtend :: "ical_dt option"

text \<open>The dictionary appended to \<^verbatim>\<open>courses\<close>.\<close>

record course =
  summary :: "string option"
  description :: "string option"
  location :: "string option"
  start_time :: datetime
  end_time :: datetime

text \<open>A stored file as the parser sees it: \<open>Inl e\<close> when \<^verbatim>\<open>open\<close>, \<^verbatim>\<open>f.read\<close> or
  \<^verbatim>\<open>Calendar.from_ical\<close> raises \<open>e\<close>, else the components in the order of \<^verbatim>\<open>cal.walk()\<close>.\<close>

type_synonym ics_file = "error + component list"

text \<open>Lines 160-165 and 167-172: a value with a \<^verbatim>\<open>tzinfo\<close> that is not \<^verbatim>\<open>None\<close> is converted
  (an \<^verbatim>\<open>OverflowError\<close> at the ends of the calendar), any other value gets
  \<^verbatim>\<open>.replace(tzinfo=...)\<close>, which \<^verbatim>\<open>date.replace\<close> rejects with a \<^verbatim>\<open>TypeError\<close>.\<close>

fun normalize :: "ical_dt \<Rightarrow> error + datetime" where
  "normalize (PyDateTime w (Some off)) = astimezone w off shanghai_tz"
| "normalize (PyDateTime w None) = Inr (replace_tzinfo w shanghai_tz)"
| "normalize (PyDate d) = Inl TypeError"

text \<open>The body of the loop for one VEVENT (lines 153-180). \<^verbatim>\<open>component.get("dtstart").dt\<close> is
  an \<^verbatim>\<open>AttributeError\<close> on \<^verbatim>\<open>None\<close>; both properties are read before either is normalized.\<close>

definition parse_event :: "component \<Rightarrow> error + course" where
  "parse_event cpt =
     (case prop_dtstart cpt of
        None \<Rightarrow> Inl AttributeError
      | Some dtstart \<Rightarrow>
          (case prop_dtend cpt of
             None \<Rightarrow> Inl AttributeError
           | Some dtend \<Rightarrow>
               (case normalize dtstart of
                  Inl e \<Rightarrow> Inl e
                | Inr dtstart' \<Rightarrow>
                    (case normalize dtend of
                       Inl e \<Rightarrow> Inl e
                     | Inr dtend' \<Rightarrow>
                         Inr \<lparr>summary = prop_summary cpt,
                              description = prop_description cpt,
                              location = prop_location cpt,
                              start_time = dtstart',
                              end_time = dtend'\<rparr>))))"

text \<open>The loop over \<^verbatim>\<open>cal.walk()\<close> (lines 151-180), with the list \<^verbatim>\<open>courses\<close> built so far.\<close>

fun walk_loop :: "component list \<Rightarrow> course list \<Rightarrow> error + course list" where
  "walk_loop [] courses = Inr courses"
| "walk_loop (cpt # rest) courses =
     (if name cpt = ''VEVENT''
      then (case parse_event cpt of
              Inl e \<Rightarrow> Inl e
            | Inr c \<Rightarrow> walk_loop rest (courses @ [c]))
      else walk_loop rest courses)"

definition parse_ics_file :: "ics_file \<Rightarrow> error + course list" where
  "parse_ics_file f = (case f of Inl e \<Rightarrow> Inl e | Inr comps \<Rightarrow> walk_loop comps [])"

text \<open>The event entries of a feed, in feed order.\<close>

definition vevents :: "component list \<Rightarrow> component list" where
  "vevents comps = filter (\<lambda>cpt. name cpt = ''VEVENT'') comps"

subsection \<open>The schedule resolver\<close>

text \<open>Line 250: the courses of the day of \<open>now\<close>. A datetime is never falsy, so the first
  conjunct of the filter, \<^verbatim>\<open>c.get("start_time")\<close>, always holds.\<close>

definition today_courses :: "course list \<Rightarrow> datetime \<Rightarrow> course list" where
  "today_courses courses now = filter (\<lambda>c. date (start_time c) = date now) courses"

text \<open>The loop of lines 252-265 over \<^verbatim>\<open>today_courses\<close>. Its state is \<^verbatim>\<open>user_next_course\<close>; it
  returns the pair \<^verbatim>\<open>(user_current_course, user_next_course)\<close>. The \<^verbatim>\<open>break\<close> of line 260 is
  the branch without a recursive call.\<close>

fun scan_loop :: "datetime \<Rightarrow> course list \<Rightarrow> course option \<Rightarrow> course option \<times> course option" where
  "scan_loop now [] user_next_course = (None, user_next_course)"
| "scan_loop now (course # rest) user_next_course =
     (if dt_le (start_time course) now \<and> dt_lt now (end_time course)
      then (Some course, user_next_course)
      else if dt_lt now (start_time course)
      then (case user_next_course of
              None \<Rightarrow> scan_loop now rest (Some course)
            | Some n \<Rightarrow>
                if dt_lt (start_time course) (start_time n)
                then scan_loop now rest (Some course)
                else scan_loop now rest user_next_course)
      else scan_loop now rest user_next_course)"

text \<open>Line 268: \<^verbatim>\<open>user_current_course if user_current_course else user_next_course\<close>.\<close>

definition display_course :: "course list \<Rightarrow> datetime \<Rightarrow> course option" where
  "display_course courses now =
     (case scan_loop now (today_courses courses now) None of
        (Some c, _) \<Rightarrow> Some c
      | (None, n) \<Rightarrow> n)"

text \<open>The outcome of the loop, named by the variable that holds the course: the current course
  (\<^verbatim>\<open>user_current_course\<close>) if there is one, else the next one (\<^verbatim>\<open>user_next_course\<close>), else
  nothing. The loop keeps the course and no duration.\<close>

datatype ResolvedStatus = Ongoing course | Upcoming course | NoStatus

definition statusAt :: "course list \<Rightarrow> datetime \<Rightarrow> ResolvedStatus" where
  "statusAt courses now =
     (case scan_loop now (today_courses courses now) None of
        (Some c, _) \<Rightarrow> Ongoing c
      | (None, Some c) \<Rightarrow> Upcoming c
      | (None, None) \<Rightarrow> NoStatus)"

text \<open>The vocabulary of the properties below.\<close>

abbreviation same_day :: "datetime \<Rightarrow> course \<Rightarrow> bool" where
  "same_day now c \<equiv> date (start_time c) = date now"

abbreviation ongoing :: "datetime \<Rightarrow> course \<Rightarrow> bool" where
  "ongoing now c \<equiv> dt_le (start_time c) now \<and> dt_lt now (end_time c)"

abbreviation upcoming :: "datetime \<Rightarrow> course \<Rightarrow> bool" where
  "upcoming now c \<equiv> dt_lt now (start_time c)"

subsection \<open>The single-user query\<close>

text \<open>\<^verbatim>\<open>self.user_data\<close>: for a group, its dictionary from user id to nickname, in insertion
  order. The file system: what is stored under a path, \<open>None\<close> when \<^verbatim>\<open>os.path.exists\<close> is
  false. Paths are taken relative to \<^verbatim>\<open>self.ics_path\<close>.\<close>

type_synonym user_data = "string \<Rightarrow> (string \<times> string) list option"

type_synonym file_system = "string \<Rightarrow> ics_file option"

definition ics_file_path :: "string \<Rightarrow> string \<Rightarrow> string \<Rightarrow> string" where
  "ics_file_path user_id nickname group_id =
     user_id @ ''_'' @ nickname @ ''_'' @ group_id @ ''.ics''"

text \<open>Lines 203-211: the courses of today that start after \<open>now\<close>. Line 218: the same,
  sorted by start time; \<^verbatim>\<open>list.sort\<close> is stable, as \<open>sort_key\<close> is.\<close>

definition remaining_today :: "course list \<Rightarrow> datetime \<Rightarrow> course list" where
  "remaining_today courses now =
     filter (\<lambda>course. date (start_time course) = date now \<and> dt_lt now (start_time course)) courses"

definition today_view :: "course list \<Rightarrow> datetime \<Rightarrow> course list" where
  "today_view courses now = sort_key (\<lambda>x. utc (start_time x)) (remaining_today courses now)"

text \<open>The replies of \<^verbatim>\<open>show_today_schedule\<close>: its three plain messages, or the image of the
  courses (each with the nickname stored into it at line 222) under the sender's name.\<close>

datatype user_reply = NotBound | FileMissing | NoCoursesToday
  | UserImage "(course \<times> string) list" string

text \<open>An empty or absent group id is falsy.\<close>

definition show_today_schedule ::
  "user_data \<Rightarrow> file_system \<Rightarrow> string \<Rightarrow> string \<Rightarrow> string \<Rightarrow> int \<Rightarrow> error + user_reply" where
  "show_today_schedule ud fs user_id group_id sender_name clock =
     (if group_id = [] then Inr NotBound
      else case ud group_id of
        None \<Rightarrow> Inr NotBound
      | Some members \<Rightarrow>
          (case map_of members user_id of
             None \<Rightarrow> Inr NotBound
           | Some nickname \<Rightarrow>
               (case fs (ics_file_path user_id nickname group_id) of
                  None \<Rightarrow> Inr FileMissing
                | Some f \<Rightarrow>
                    (case parse_ics_file f of
                       Inl e \<Rightarrow> Inl e
                     | Inr courses \<Rightarrow>
                         (let now = datetime_now clock
                          in if remaining_today courses now = [] then Inr NoCoursesToday
                             else Inr (UserImage
                                         (map (\<lambda>course. (course, nickname))
                                            (today_view courses now))
                                         sender_name))))))"

subsection \<open>The group query\<close>

text \<open>The dictionary appended to \<^verbatim>\<open>next_courses\<close> (lines 272-280).\<close>

record display_record = course +
  user_id :: string
  nickname :: string

text \<open>The body of the loop of lines 240-281 for one member: nothing to append when the file
  does not exist (line 243) or when there is no course to display (line 270), else the record
  to append. No exception of the parser is caught.\<close>

definition member_course ::
  "file_system \<Rightarrow> string \<Rightarrow> datetime \<Rightarrow> string \<Rightarrow> string \<Rightarrow> error + display_record option" where
  "member_course fs group_id now uid nick =
     (case fs (ics_file_path uid nick group_id) of
        None \<Rightarrow> Inr None
      | Some f \<Rightarrow>
          (case parse_ics_file f of
             Inl e \<Rightarrow> Inl e
           | Inr courses \<Rightarrow>
               (case display_course courses now of
                  None \<Rightarrow> Inr None
                | Some dc \<Rightarrow>
                    Inr (Some \<lparr>summary = summary dc,
                               description = description dc,
                               location = location dc,
                               start_time = start_time dc,
                               end_time = end_time dc,
                               user_id = uid,
                               nickname = nick\<rparr>))))"

text \<open>The loop over the members of the group, with the list \<^verbatim>\<open>next_courses\<close> built so far.\<close>

fun group_loop ::
  "file_system \<Rightarrow> string \<Rightarrow> datetime \<Rightarrow> (string \<times> string) list \<Rightarrow> display_record list
     \<Rightarrow> error + display_record list" where
  "group_loop fs group_id now [] next_courses = Inr next_courses"
| "group_loop fs group_id now ((uid, nick) # rest) next_courses =
     (case member_course fs group_id now uid nick of
        Inl e \<Rightarrow> Inl e
      | Inr None \<Rightarrow> group_loop fs group_id now rest next_courses
      | Inr (Some r) \<Rightarrow> group_loop fs group_id now rest (next_courses @ [r]))"

text \<open>The replies of \<^verbatim>\<open>show_group_schedule\<close>: its two plain messages, or the image of the
  sorted records.\<close>

datatype group_reply = NobodyBound | NobodyHasCourses | GroupImage "display_record list"

definition show_group_schedule ::
  "user_data \<Rightarrow> file_system \<Rightarrow> string \<Rightarrow> int \<Rightarrow> error + group_reply" where
  "show_group_schedule ud fs group_id clock =
     (if group_id = [] then Inr NobodyBound
      else case ud group_id of
        None \<Rightarrow> Inr NobodyBound
      | Some members \<Rightarrow>
          (case group_loop fs group_id (datetime_now clock) members [] of
             Inl e \<Rightarrow> Inl e
           | Inr next_courses \<Rightarrow>
               if next_courses = [] then Inr NobodyHasCourses
               else Inr (GroupImage (sort_key (\<lambda>x. utc (start_time x)) next_courses))))"

text \<open>The status and the minutes that the renderer of the group image writes in the row of a
  record (lines 400-417), \<open>now\<close> being the clock as the renderer reads it again (line 364):
  in progress with the minutes left, next with the minutes to wait, or finished. The two
  instants of a record are never falsy, so the branch of line 418 is not taken.\<close>

datatype row_status = InProgress int | NextLesson int | Finished

definition row_status :: "datetime \<Rightarrow> 'a course_scheme \<Rightarrow> row_status" where
  "row_status now course =
     (if dt_le (start_time course) now \<and> dt_lt now (end_time course)
      then InProgress (td_seconds (dt_sub (end_time course) now) div 60)
      else if dt_lt now (start_time course)
      then NextLesson (td_seconds (dt_sub (start_time course) now) div 60)
      else Finished)"

text \<open>The vocabulary of the properties of the group query: the record of a course for a
  member; a member is shown when the file exists, parses and holds a current or a next
  course; the record of a shown member is the record of that course.\<close>

definition record_for :: "course \<Rightarrow> string \<Rightarrow> string \<Rightarrow> display_record" where
  "record_for c uid nick =
     \<lparr>summary = summary c, description = description c, location = location c,
      start_time = start_time c, end_time = end_time c, user_id = uid, nickname = nick\<rparr>"

abbreviation file_of :: "file_system \<Rightarrow> string \<Rightarrow> string \<times> string \<Rightarrow> ics_file option" where
  "file_of fs group_id m \<equiv> fs (ics_file_path (fst m) (snd m) group_id)"

definition shown :: "file_system \<Rightarrow> string \<Rightarrow> datetime \<Rightarrow> string \<times> string \<Rightarrow> bool" where
  "shown fs group_id now m =
     (case file_of fs group_id m of
        None \<Rightarrow> False
      | Some f \<Rightarrow>
          (case parse_ics_file f of
             Inl e \<Rightarrow> False
           | Inr courses \<Rightarrow> statusAt courses now \<noteq> NoStatus))"

definition shown_as ::
  "file_system \<Rightarrow> string \<Rightarrow> datetime \<Rightarrow> string \<times> string \<Rightarrow> display_record \<Rightarrow> bool" where
  "shown_as fs group_id now m r =
     (case file_of fs group_id m of
        None \<Rightarrow> False
      | Some f \<Rightarrow>
          (case parse_ics_file f of
             Inl e \<Rightarrow> False
           | Inr courses \<Rightarrow>
               (case statusAt courses now of
                  Ongoing e \<Rightarrow> r = record_for e (fst m) (snd m)
                | Upcoming e \<Rightarrow> r = record_for e (fst m) (snd m)
                | NoStatus \<Rightarrow> False)))"

subsection \<open>Example feeds\<close>

text \<open>The wall clock at a day, an hour and a minute.\<close>

definition clock_at :: "int \<Rightarrow> int \<Rightarrow> int \<Rightarrow> int" where
  "clock_at d h m = timedelta_days d + timedelta_hours h + m * 60000000"

definition vevent :: "string \<Rightarrow> ical_dt option \<Rightarrow> ical_dt option \<Rightarrow> component" where
  "vevent title dtstart dtend =
     \<lparr>name = ''VEVENT'', prop_summary = Some title, prop_description = None,
      prop_location = None, prop_dtstart = dtstart, prop_dtend = dtend\<rparr>"

definition vcalendar :: component where
  "vcalendar = \<lparr>name = ''VCALENDAR'', prop_summary = None, prop_description = None,
      prop_location = None, prop_dtstart = None, prop_dtend = None\<rparr>"

text \<open>A course record whose two instants are given by their UTC+8 wall clocks.\<close>

definition lesson :: "string \<Rightarrow> int \<Rightarrow> int \<Rightarrow> course" where
  "lesson title s e =
     \<lparr>summary = Some title, description = None, location = None,
      start_time = \<lparr>wall = s, utcoffset = shanghai_tz\<rparr>,
      end_time = \<lparr>wall = e, utcoffset = shanghai_tz\<rparr>\<rparr>"

text \<open>A feed with one event given in UTC (01:00Z to 02:00Z) and one given without a time zone
  (10:15 to 11:15).\<close>

definition mixed_feed :: "component list" where
  "mixed_feed =
     [vcalendar,
      vevent ''Math'' (Some (PyDateTime (clock_at 739000 1 0) (Some 0)))
                      (Some (PyDateTime (clock_at 739000 2 0) (Some 0))),
      vevent ''Physics'' (Some (PyDateTime (clock_at 739000 10 15) None))
                         (Some (PyDateTime (clock_at 739000 11 15) None))]"

text \<open>A feed whose first event entry has no DTSTART, and the same feed without that entry.\<close>

definition physics_event :: component where
  "physics_event =
     vevent ''Physics'' (Some (PyDateTime (clock_at 739000 10 15) None))
                        (Some (PyDateTime (clock_at 739000 11 15) None))"

definition broken_feed :: "component list" where
  "broken_feed =
     [vcalendar,
      vevent ''Math'' None (Some (PyDateTime (clock_at 739000 10 0) None)),
      physics_event]"

text \<open>A feed whose only event entry ends an hour before it starts.\<close>

definition backwards_feed :: "component list" where
  "backwards_feed =
     [vcalendar,
      vevent ''Math'' (Some (PyDateTime (clock_at 739000 10 0) None))
                      (Some (PyDateTime (clock_at 739000 9 0) None))]"

text \<open>A feed whose first event entry is given in UTC in the evening of 9999-12-31 (day
  3652058 since 0001-01-01) and whose second event entry has no DTSTART.\<close>

definition overflow_feed :: "component list" where
  "overflow_feed =
     [vcalendar,
      vevent ''Party'' (Some (PyDateTime (clock_at 3652058 20 0) (Some 0)))
                       (Some (PyDateTime (clock_at 3652058 21 0) (Some 0))),
      vevent ''Math'' None (Some (PyDateTime (clock_at 739000 10 0) None))]"

text \<open>A feed with a timed event entry followed by an all-day one (DTSTART;VALUE=DATE).\<close>

definition allday_feed :: "component list" where
  "allday_feed =
     [vcalendar,
      physics_event,
      vevent ''Holiday'' (Some (PyDate 739000)) (Some (PyDate 739001))]"

text \<open>The timetable of the scenarios of the specification (Math 09:00 to 10:00, Physics 10:15
  to 11:15, both on day 739000), and a clock value of that zone.\<close>

definition timetable :: "course list" where
  "timetable =
     [lesson ''Math'' (clock_at 739000 9 0) (clock_at 739000 10 0),
      lesson ''Physics'' (clock_at 739000 10 15) (clock_at 739000 11 15)]"

definition shanghai_time :: "int \<Rightarrow> int \<Rightarrow> int \<Rightarrow> datetime" where
  "shanghai_time d h m = \<lparr>wall = clock_at d h m, utcoffset = shanghai_tz\<rparr>"

text \<open>A course from 09:00 of one day to 10:00 of the next.\<close>

definition camp :: course where
  "camp = lesson ''Camp'' (clock_at 739000 9 0) (clock_at 739001 10 0)"

text \<open>Two overlapping courses: the first of the feed runs 09:00 to 10:00, the second started
  earlier and runs 08:00 to 11:00.\<close>

definition overlapping :: "course list" where
  "overlapping =
     [lesson ''Seminar'' (clock_at 739000 9 0) (clock_at 739000 10 0),
      lesson ''Workshop'' (clock_at 739000 8 0) (clock_at 739000 11 0)]"
text \<open>A feed with one course from 08:00 to 08:45.\<close>

definition early_feed :: "component list" where
  "early_feed =
     [vcalendar,
      vevent ''Art'' (Some (PyDateTime (clock_at 739000 8 0) None))
                     (Some (PyDateTime (clock_at 739000 8 45) None))]"

text \<open>Four groups. In group 100, Bob has the Physics course only, Ann the timetable above,
  Cy no file and Dan the course from 08:00 to 08:45. In group 200, the file of Eve exists and
  is not UTF-8 text. In group 300, Cy has no file. In group 400, the file of Fay is the feed
  with an event entry without DTSTART.\<close>

definition example_users :: user_data where
  "example_users =
     [''100'' \<mapsto> [(''2'', ''Bob''), (''1'', ''Ann''), (''3'', ''Cy''), (''4'', ''Dan'')],
      ''200'' \<mapsto> [(''5'', ''Eve'')],
      ''300'' \<mapsto> [(''3'', ''Cy'')],
      ''400'' \<mapsto> [(''6'', ''Fay'')]]"

definition example_files :: file_system where
  "example_files =
     [ics_file_path ''1'' ''Ann'' ''100'' \<mapsto> Inr mixed_feed,
      ics_file_path ''2'' ''Bob'' ''100'' \<mapsto> Inr [vcalendar, physics_event],
      ics_file_path ''4'' ''Dan'' ''100'' \<mapsto> Inr early_feed,
      ics_file_path ''5'' ''Eve'' ''200'' \<mapsto> Inl UnicodeDecodeError,
      ics_file_path ''6'' ''Fay'' ''400'' \<mapsto> Inr broken_feed]"

subsection \<open>Properties of the parser\<close>

lemma walk_loop_Inr:
  "walk_loop comps acc = Inr courses \<Longrightarrow>
     \<exists>cs. courses = acc @ cs \<and> list_all2 (\<lambda>ev c. parse_event ev = Inr c) (vevents comps) cs"
proof (induction comps arbitrary: acc)
  case Nil
  then show ?case by (simp add: vevents_def)
next
  case (Cons cpt rest)
  show ?case
  proof (cases "name cpt = ''VEVENT''")
    case True
    with Cons.prems obtain c where c: "parse_event cpt = Inr c"
      and w: "walk_loop rest (acc @ [c]) = Inr courses"
      by (auto split: sum.splits)
    from Cons.IH [OF w] obtain cs where "courses = (acc @ [c]) @ cs"
      and "list_all2 (\<lambda>ev c. parse_event ev = Inr c) (vevents rest) cs"
      by blast
    with True c show ?thesis
      by (intro exI [of _ "c # cs"]) (simp add: vevents_def)
  next
    case False
    with Cons.prems have "walk_loop rest acc = Inr courses" by simp
    from Cons.IH [OF this] False show ?thesis by (simp add: vevents_def)
  qed
qed

lemma parse_ics_file_Inr:
  assumes "parse_ics_file (Inr comps) = Inr courses"
  shows "list_all2 (\<lambda>ev c. parse_event ev = Inr c) (vevents comps) courses"
  using walk_loop_Inr [of comps "[]" courses] assms by (simp add: parse_ics_file_def)

lemma walk_loop_all_ok:
  "\<forall>ev \<in> set (vevents comps). \<exists>c. parse_event ev = Inr c \<Longrightarrow>
     \<exists>courses. walk_loop comps acc = Inr courses"
  by (induction comps arbitrary: acc) (auto simp: vevents_def)

lemma walk_loop_first_failure:
  assumes "\<forall>ev \<in> set (vevents pre). \<exists>c. parse_event ev = Inr c"
    and "name cpt = ''VEVENT''" and "parse_event cpt = Inl e"
  shows "walk_loop (pre @ cpt # post) acc = Inl e"
  using assms by (induction pre arbitrary: acc) (auto simp: vevents_def)

lemma walk_loop_failure:
  assumes "cpt \<in> set comps" and "name cpt = ''VEVENT''" and "parse_event cpt = Inl e"
  shows "\<exists>e'. walk_loop comps acc = Inl e'"
  using assms
proof (induction comps arbitrary: acc)
  case Nil
  then show ?case by simp
next
  case (Cons a rest)
  then show ?case by (cases "parse_event a") auto
qed

lemma normalize_errors:
  "normalize v = Inl e \<Longrightarrow> e = TypeError \<or> e = OverflowError"
  by (cases v rule: normalize.cases) (auto simp: astimezone_def split: if_splits)

lemma parse_event_errors:
  "parse_event cpt = Inl e \<Longrightarrow> e = AttributeError \<or> e = TypeError \<or> e = OverflowError"
  by (auto simp: parse_event_def split: option.splits sum.splits dest: normalize_errors)

lemma walk_loop_errors:
  "walk_loop comps acc = Inl e \<Longrightarrow> e = AttributeError \<or> e = TypeError \<or> e = OverflowError"
proof (induction comps arbitrary: acc)
  case Nil
  then show ?case by simp
next
  case (Cons a rest)
  then show ?case
    by (cases "parse_event a") (auto split: if_splits dest: parse_event_errors)
qed

lemma parse_event_start:
  assumes "parse_event ev = Inr c"
  shows "\<exists>ds. prop_dtstart ev = Some ds \<and> Inr (start_time c) = normalize ds"
  using assms by (auto simp: parse_event_def split: option.splits sum.splits)

lemma parse_event_end:
  assumes "parse_event ev = Inr c"
  shows "\<exists>de. prop_dtend ev = Some de \<and> Inr (end_time c) = normalize de"
  using assms by (auto simp: parse_event_def split: option.splits sum.splits)

lemma walk_loop_Inl:
  "walk_loop comps acc = Inl e \<Longrightarrow> \<exists>ev \<in> set (vevents comps). parse_event ev = Inl e"
proof (induction comps arbitrary: acc)
  case Nil
  then show ?case by simp
next
  case (Cons a rest)
  then show ?case
    by (cases "parse_event a") (auto simp: vevents_def split: if_splits)
qed

lemma parse_event_date_fails:
  assumes "prop_dtstart cpt = Some (PyDate d) \<or> prop_dtend cpt = Some (PyDate d)"
  shows "\<exists>e. parse_event cpt = Inl e"
  using assms by (auto simp: parse_event_def split: option.splits sum.splits)

lemma parse_event_missing_fails:
  assumes "prop_dtstart cpt = None \<or> prop_dtend cpt = None"
  shows "parse_event cpt = Inl AttributeError"
  using assms by (auto simp: parse_event_def split: option.splits)

lemma parse_event_TypeError:
  assumes "parse_event cpt = Inl e" and "prop_dtstart cpt \<noteq> None" and "prop_dtend cpt \<noteq> None"
    and "\<forall>v. prop_dtstart cpt = Some v \<longrightarrow> normalize v \<noteq> Inl OverflowError"
    and "\<forall>v. prop_dtend cpt = Some v \<longrightarrow> normalize v \<noteq> Inl OverflowError"
  shows "e = TypeError"
  using assms
  by (auto simp: parse_event_def split: option.splits sum.splits dest: normalize_errors)

lemma walk_loop_first_failing:
  assumes "cpt \<in> set comps" and "name cpt = ''VEVENT''" and "parse_event cpt = Inl e0"
  shows "\<exists>pre bad post e.
           comps = pre @ bad # post \<and> name bad = ''VEVENT''
         \<and> (\<forall>ev \<in> set (vevents pre). \<exists>c. parse_event ev = Inr c)
         \<and> parse_event bad = Inl e \<and> walk_loop comps acc = Inl e"
proof -
  let ?fails = "\<lambda>x. name x = ''VEVENT'' \<and> (\<exists>e. parse_event x = Inl e)"
  from assms have "\<exists>x \<in> set comps. ?fails x" by blast
  from split_list_first_prop [OF this] obtain pre bad post
    where dec: "comps = pre @ bad # post" and bad: "?fails bad"
      and before: "\<forall>y \<in> set pre. \<not> ?fails y" by blast
  from bad obtain e where e: "parse_event bad = Inl e" by blast
  have ok: "\<forall>ev \<in> set (vevents pre). \<exists>c. parse_event ev = Inr c"
  proof
    fix ev assume "ev \<in> set (vevents pre)"
    then have "ev \<in> set pre" "name ev = ''VEVENT''" by (simp_all add: vevents_def)
    with before have "\<not> (\<exists>e. parse_event ev = Inl e)" by blast
    then show "\<exists>c. parse_event ev = Inr c" by (cases "parse_event ev") auto
  qed
  from bad have nm: "name bad = ''VEVENT''" by simp
  from walk_loop_first_failure [OF ok nm e, of post acc] dec
  have "walk_loop comps acc = Inl e" by simp
  with dec nm ok e show ?thesis by blast
qed

lemma parse_mixed_feed:
  "parse_ics_file (Inr mixed_feed) =
     Inr [lesson ''Math'' (clock_at 739000 9 0) (clock_at 739000 10 0),
          lesson ''Physics'' (clock_at 739000 10 15) (clock_at 739000 11 15)]"
  by (simp add: parse_ics_file_def mixed_feed_def vcalendar_def vevent_def parse_event_def
        lesson_def astimezone_def in_range_def replace_tzinfo_def shanghai_tz_def clock_at_def
        timedelta_hours_def timedelta_days_def)

subsection \<open>Normalization of start and end (C3)\<close>

text \<open>
  C3. When the parser returns, its records are the event entries of the feed, one for one and
  in feed order, and for each of them: a start (resp. end) that carries a time zone is stored
  as the same instant shown at the fixed offset UTC+8, and a start (resp. end) that carries
  none is stored with the offset UTC+8 attached and its wall clock (hence its year, month,
  day, hour, minute and second) unchanged.
\<close>

theorem parse_normalizes_to_utc8:
  assumes "parse_ics_file (Inr comps) = Inr courses"
  shows "list_all2 (\<lambda>ev c.
      (\<forall>w off. prop_dtstart ev = Some (PyDateTime w (Some off)) \<longrightarrow>
         start_time c = \<lparr>wall = w - off + timedelta_hours 8, utcoffset = timedelta_hours 8\<rparr>
         \<and> utc (start_time c) = w - off)
    \<and> (\<forall>w. prop_dtstart ev = Some (PyDateTime w None) \<longrightarrow>
         start_time c = \<lparr>wall = w, utcoffset = timedelta_hours 8\<rparr>)
    \<and> (\<forall>w off. prop_dtend ev = Some (PyDateTime w (Some off)) \<longrightarrow>
         end_time c = \<lparr>wall = w - off + timedelta_hours 8, utcoffset = timedelta_hours 8\<rparr>
         \<and> utc (end_time c) = w - off)
    \<and> (\<forall>w. prop_dtend ev = Some (PyDateTime w None) \<longrightarrow>
         end_time c = \<lparr>wall = w, utcoffset = timedelta_hours 8\<rparr>))
    (vevents comps) courses"
proof (rule list_all2_mono [OF parse_ics_file_Inr [OF assms]])
  fix ev c
  assume ok: "parse_event ev = Inr c"
  from parse_event_start [OF ok] obtain ds
    where ds: "prop_dtstart ev = Some ds" "Inr (start_time c) = normalize ds" by blast
  from parse_event_end [OF ok] obtain de
    where de: "prop_dtend ev = Some de" "Inr (end_time c) = normalize de" by blast
  have s: "\<And>w off. ds = PyDateTime w (Some off) \<Longrightarrow>
              start_time c = \<lparr>wall = w - off + timedelta_hours 8, utcoffset = timedelta_hours 8\<rparr>
              \<and> utc (start_time c) = w - off"
    using ds(2) by (auto simp: astimezone_def shanghai_tz_def utc_def split: if_splits)
  have s': "\<And>w. ds = PyDateTime w None \<Longrightarrow>
              start_time c = \<lparr>wall = w, utcoffset = timedelta_hours 8\<rparr>"
    using ds(2) by (auto simp: replace_tzinfo_def shanghai_tz_def)
  have e: "\<And>w off. de = PyDateTime w (Some off) \<Longrightarrow>
              end_time c = \<lparr>wall = w - off + timedelta_hours 8, utcoffset = timedelta_hours 8\<rparr>
              \<and> utc (end_time c) = w - off"
    using de(2) by (auto simp: astimezone_def shanghai_tz_def utc_def split: if_splits)
  have e': "\<And>w. de = PyDateTime w None \<Longrightarrow>
              end_time c = \<lparr>wall = w, utcoffset = timedelta_hours 8\<rparr>"
    using de(2) by (auto simp: replace_tzinfo_def shanghai_tz_def)
  show "(\<forall>w off. prop_dtstart ev = Some (PyDateTime w (Some off)) \<longrightarrow>
         start_time c = \<lparr>wall = w - off + timedelta_hours 8, utcoffset = timedelta_hours 8\<rparr>
         \<and> utc (start_time c) = w - off)
    \<and> (\<forall>w. prop_dtstart ev = Some (PyDateTime w None) \<longrightarrow>
         start_time c = \<lparr>wall = w, utcoffset = timedelta_hours 8\<rparr>)
    \<and> (\<forall>w off. prop_dtend ev = Some (PyDateTime w (Some off)) \<longrightarrow>
         end_time c = \<lparr>wall = w - off + timedelta_hours 8, utcoffset = timedelta_hours 8\<rparr>
         \<and> utc (end_time c) = w - off)
    \<and> (\<forall>w. prop_dtend ev = Some (PyDateTime w None) \<longrightarrow>
         end_time c = \<lparr>wall = w, utcoffset = timedelta_hours 8\<rparr>)"
    using ds(1) de(1) s s' e e' by (simp add: utc_def)
qed

theorem parse_normalizes_to_utc8_witness:
  "parse_ics_file (Inr mixed_feed) =
     Inr [lesson ''Math'' (clock_at 739000 9 0) (clock_at 739000 10 0),
          lesson ''Physics'' (clock_at 739000 10 15) (clock_at 739000 11 15)]
   \<and> utc (start_time (lesson ''Math'' (clock_at 739000 9 0) (clock_at 739000 10 0)))
       = clock_at 739000 1 0 - 0
   \<and> start_time (lesson ''Physics'' (clock_at 739000 10 15) (clock_at 739000 11 15))
       = \<lparr>wall = clock_at 739000 10 15, utcoffset = timedelta_hours 8\<rparr>"
proof -
  note h = parse_mixed_feed
  from parse_normalizes_to_utc8 [OF h]
  show ?thesis
    using h by (simp add: mixed_feed_def vevents_def vcalendar_def vevent_def utc_def)
qed

lemma parse_physics_event:
  "parse_event physics_event =
     Inr (lesson ''Physics'' (clock_at 739000 10 15) (clock_at 739000 11 15))"
  by (simp add: physics_event_def vevent_def parse_event_def lesson_def replace_tzinfo_def)

subsection \<open>An event entry without start or end (C8)\<close>

text \<open>
  C8, as amended. The parser does not skip an event entry that lacks its start or its end:
  reading \<^verbatim>\<open>.dt\<close> of the absent property raises, nothing catches it, and the parse of the
  whole feed is aborted without a record. The exception raised is that of the first event
  entry of the feed, in feed order, that fails; it is the \<^verbatim>\<open>AttributeError\<close> of the entry
  without start or end whenever every event entry before it parses.
\<close>

theorem missing_field_aborts_parse:
  assumes "cpt \<in> set comps" and "name cpt = ''VEVENT''"
    and "prop_dtstart cpt = None \<or> prop_dtend cpt = None"
  shows "(\<exists>pre bad post e.
            comps = pre @ bad # post \<and> name bad = ''VEVENT''
          \<and> (\<forall>ev \<in> set (vevents pre). \<exists>c. parse_event ev = Inr c)
          \<and> parse_event bad = Inl e \<and> parse_ics_file (Inr comps) = Inl e)
       \<and> parse_event cpt = Inl AttributeError
       \<and> (\<forall>pre post.
            comps = pre @ cpt # post \<and> (\<forall>ev \<in> set (vevents pre). \<exists>c. parse_event ev = Inr c)
            \<longrightarrow> parse_ics_file (Inr comps) = Inl AttributeError)"
proof -
  have own: "parse_event cpt = Inl AttributeError"
    using assms(3) by (rule parse_event_missing_fails)
  from walk_loop_first_failing [OF assms(1,2) own, of "[]"]
  have first: "\<exists>pre bad post e.
            comps = pre @ bad # post \<and> name bad = ''VEVENT''
          \<and> (\<forall>ev \<in> set (vevents pre). \<exists>c. parse_event ev = Inr c)
          \<and> parse_event bad = Inl e \<and> parse_ics_file (Inr comps) = Inl e"
    by (simp add: parse_ics_file_def)
  have "parse_ics_file (Inr comps) = Inl AttributeError"
    if "comps = pre @ cpt # post" "\<forall>ev \<in> set (vevents pre). \<exists>c. parse_event ev = Inr c"
    for pre post
    using walk_loop_first_failure [OF that(2) assms(2) own, of post "[]"] that(1)
    by (simp add: parse_ics_file_def)
  with own first show ?thesis by blast
qed

lemma parse_overflow_feed: "parse_ics_file (Inr overflow_feed) = Inl OverflowError"
  by (simp add: parse_ics_file_def overflow_feed_def vcalendar_def)
     (simp add: vevent_def parse_event_def astimezone_def in_range_def shanghai_tz_def
        clock_at_def timedelta_hours_def timedelta_days_def)

theorem missing_field_aborts_parse_witness:
  "parse_ics_file (Inr broken_feed) = Inl AttributeError"
proof -
  let ?bad = "vevent ''Math'' None (Some (PyDateTime (clock_at 739000 10 0) None))"
  have 1: "?bad \<in> set broken_feed" by (simp add: broken_feed_def)
  have 2: "name ?bad = ''VEVENT''" by (simp add: vevent_def)
  have 3: "prop_dtstart ?bad = None \<or> prop_dtend ?bad = None" by (simp add: vevent_def)
  have 4: "broken_feed = [vcalendar] @ ?bad # [physics_event]
             \<and> (\<forall>ev \<in> set (vevents [vcalendar]). \<exists>c. parse_event ev = Inr c)"
    by (simp add: broken_feed_def vevents_def vcalendar_def)
  from missing_field_aborts_parse [OF 1 2 3, THEN conjunct2, THEN conjunct2, rule_format, OF 4]
  show ?thesis .
qed

text \<open>The claim as stated fails on \<open>broken_feed\<close>: the entry without DTSTART is not skipped and
  the record of the other entry is not returned.\<close>

theorem missing_field_not_skipped_counterexample:
  "parse_ics_file (Inr [vcalendar, physics_event]) =
     Inr [lesson ''Physics'' (clock_at 739000 10 15) (clock_at 739000 11 15)]
   \<and> parse_ics_file (Inr broken_feed) = Inl AttributeError
   \<and> parse_ics_file (Inr broken_feed) \<noteq>
       Inr [lesson ''Physics'' (clock_at 739000 10 15) (clock_at 739000 11 15)]"
  by (simp add: parse_ics_file_def broken_feed_def vcalendar_def parse_physics_event)
     (simp add: physics_event_def vevent_def parse_event_def)

subsection \<open>Start before end (C9)\<close>

text \<open>
  C9, as amended. The parser neither checks nor orders the two instants of an entry: a record
  has its start strictly before its end exactly when the instant of the entry's DTSTART is
  strictly before the instant of its DTEND, a value without time zone being read at UTC+8.
\<close>

theorem start_before_end_iff_feed:
  assumes "parse_ics_file (Inr comps) = Inr courses"
  shows "list_all2 (\<lambda>ev c.
      \<exists>ws os we oe.
        prop_dtstart ev = Some (PyDateTime ws os) \<and> prop_dtend ev = Some (PyDateTime we oe)
        \<and> (dt_lt (start_time c) (end_time c) \<longleftrightarrow>
             ws - (case os of None \<Rightarrow> timedelta_hours 8 | Some off \<Rightarrow> off)
               < we - (case oe of None \<Rightarrow> timedelta_hours 8 | Some off \<Rightarrow> off)))
    (vevents comps) courses"
proof (rule list_all2_mono [OF parse_ics_file_Inr [OF assms]])
  fix ev c
  assume ok: "parse_event ev = Inr c"
  from parse_event_start [OF ok] obtain ds
    where ds: "prop_dtstart ev = Some ds" "Inr (start_time c) = normalize ds" by blast
  from parse_event_end [OF ok] obtain de
    where de: "prop_dtend ev = Some de" "Inr (end_time c) = normalize de" by blast
  from ds(2) obtain ws os where ws: "ds = PyDateTime ws os"
    by (cases ds) auto
  from de(2) obtain we oe where we: "de = PyDateTime we oe"
    by (cases de) auto
  have s: "utc (start_time c) = ws - (case os of None \<Rightarrow> timedelta_hours 8 | Some off \<Rightarrow> off)"
    using ds(2) ws
    by (cases os)
       (auto simp: utc_def astimezone_def replace_tzinfo_def shanghai_tz_def split: if_splits)
  have e: "utc (end_time c) = we - (case oe of None \<Rightarrow> timedelta_hours 8 | Some off \<Rightarrow> off)"
    using de(2) we
    by (cases oe)
       (auto simp: utc_def astimezone_def replace_tzinfo_def shanghai_tz_def split: if_splits)
  show "\<exists>ws os we oe.
        prop_dtstart ev = Some (PyDateTime ws os) \<and> prop_dtend ev = Some (PyDateTime we oe)
        \<and> (dt_lt (start_time c) (end_time c) \<longleftrightarrow>
             ws - (case os of None \<Rightarrow> timedelta_hours 8 | Some off \<Rightarrow> off)
               < we - (case oe of None \<Rightarrow> timedelta_hours 8 | Some off \<Rightarrow> off))"
    using ds(1) de(1) ws we s e by (auto simp: dt_lt_def)
qed

lemma parse_backwards_feed:
  "parse_ics_file (Inr backwards_feed) =
     Inr [lesson ''Math'' (clock_at 739000 10 0) (clock_at 739000 9 0)]"
  by (simp add: parse_ics_file_def backwards_feed_def vcalendar_def vevent_def parse_event_def
        lesson_def replace_tzinfo_def)

theorem start_before_end_iff_feed_witness:
  "parse_ics_file (Inr mixed_feed) =
     Inr [lesson ''Math'' (clock_at 739000 9 0) (clock_at 739000 10 0),
          lesson ''Physics'' (clock_at 739000 10 15) (clock_at 739000 11 15)]
   \<and> dt_lt (start_time (lesson ''Math'' (clock_at 739000 9 0) (clock_at 739000 10 0)))
            (end_time (lesson ''Math'' (clock_at 739000 9 0) (clock_at 739000 10 0)))
   \<and> dt_lt (start_time (lesson ''Physics'' (clock_at 739000 10 15) (clock_at 739000 11 15)))
            (end_time (lesson ''Physics'' (clock_at 739000 10 15) (clock_at 739000 11 15)))"
proof -
  note h = parse_mixed_feed
  from start_before_end_iff_feed [OF h]
  show ?thesis
    using h
    by (simp add: mixed_feed_def vevents_def vcalendar_def vevent_def clock_at_def
          timedelta_hours_def timedelta_days_def)
qed

text \<open>The claim as stated fails on \<open>backwards_feed\<close>: the parser returns a record whose start
  is after its end.\<close>

theorem start_before_end_counterexample:
  "parse_ics_file (Inr backwards_feed) =
     Inr [lesson ''Math'' (clock_at 739000 10 0) (clock_at 739000 9 0)]
   \<and> \<not> dt_lt (start_time (lesson ''Math'' (clock_at 739000 10 0) (clock_at 739000 9 0)))
              (end_time (lesson ''Math'' (clock_at 739000 10 0) (clock_at 739000 9 0)))"
  by (simp add: parse_backwards_feed)
     (simp add: lesson_def dt_lt_def utc_def clock_at_def timedelta_hours_def timedelta_days_def)

subsection \<open>An all-day event entry (C10)\<close>

text \<open>
  C10. A feed with an event entry whose start or end is a date-only value makes the parser
  fail for the whole feed: no record is returned, not even for the entries before it. The
  exception raised is that of the first event entry of the feed that fails. It is the
  \<^verbatim>\<open>TypeError\<close> of \<^verbatim>\<open>date.replace(tzinfo=...)\<close> whenever every event entry of the feed has
  both its start and its end and none of these values is out of range at UTC+8 (else it
  may be the \<^verbatim>\<open>AttributeError\<close> or the \<^verbatim>\<open>OverflowError\<close> that comes first).
\<close>

theorem date_value_aborts_parse:
  assumes "cpt \<in> set comps" and "name cpt = ''VEVENT''"
    and "prop_dtstart cpt = Some (PyDate d) \<or> prop_dtend cpt = Some (PyDate d)"
  shows "(parse_ics_file (Inr comps) = Inl TypeError
            \<or> parse_ics_file (Inr comps) = Inl AttributeError
            \<or> parse_ics_file (Inr comps) = Inl OverflowError)
       \<and> (\<exists>pre bad post e.
            comps = pre @ bad # post \<and> name bad = ''VEVENT''
          \<and> (\<forall>ev \<in> set (vevents pre). \<exists>c. parse_event ev = Inr c)
          \<and> parse_event bad = Inl e \<and> parse_ics_file (Inr comps) = Inl e)
       \<and> ((\<forall>ev \<in> set (vevents comps).
              prop_dtstart ev \<noteq> None \<and> prop_dtend ev \<noteq> None
            \<and> (\<forall>v. prop_dtstart ev = Some v \<longrightarrow> normalize v \<noteq> Inl OverflowError)
            \<and> (\<forall>v. prop_dtend ev = Some v \<longrightarrow> normalize v \<noteq> Inl OverflowError))
            \<longrightarrow> parse_ics_file (Inr comps) = Inl TypeError)"
proof -
  from parse_event_date_fails [OF assms(3)]
  obtain e0 where e0: "parse_event cpt = Inl e0" by blast
  from walk_loop_first_failing [OF assms(1,2) e0, of "[]"]
  have first: "\<exists>pre bad post e.
            comps = pre @ bad # post \<and> name bad = ''VEVENT''
          \<and> (\<forall>ev \<in> set (vevents pre). \<exists>c. parse_event ev = Inr c)
          \<and> parse_event bad = Inl e \<and> parse_ics_file (Inr comps) = Inl e"
    by (simp add: parse_ics_file_def)
  from walk_loop_failure [OF assms(1,2) e0]
  obtain e where e: "walk_loop comps [] = Inl e" by blast
  from walk_loop_errors [OF e]
  have either: "e = AttributeError \<or> e = TypeError \<or> e = OverflowError" .
  from walk_loop_Inl [OF e] obtain ev
    where ev: "ev \<in> set (vevents comps)" "parse_event ev = Inl e" by blast
  have "e = TypeError"
    if "\<forall>ev \<in> set (vevents comps).
              prop_dtstart ev \<noteq> None \<and> prop_dtend ev \<noteq> None
            \<and> (\<forall>v. prop_dtstart ev = Some v \<longrightarrow> normalize v \<noteq> Inl OverflowError)
            \<and> (\<forall>v. prop_dtend ev = Some v \<longrightarrow> normalize v \<noteq> Inl OverflowError)"
    using parse_event_TypeError [OF ev(2)] that ev(1) by blast
  with either e first show ?thesis by (auto simp: parse_ics_file_def)
qed

theorem date_value_aborts_parse_witness:
  "parse_ics_file (Inr allday_feed) = Inl TypeError"
proof -
  let ?day = "vevent ''Holiday'' (Some (PyDate 739000)) (Some (PyDate 739001))"
  have 1: "?day \<in> set allday_feed" by (simp add: allday_feed_def)
  have 2: "name ?day = ''VEVENT''" by (simp add: vevent_def)
  have 3: "prop_dtstart ?day = Some (PyDate 739000) \<or> prop_dtend ?day = Some (PyDate 739000)"
    by (simp add: vevent_def)
  have 4: "\<forall>ev \<in> set (vevents allday_feed).
              prop_dtstart ev \<noteq> None \<and> prop_dtend ev \<noteq> None
            \<and> (\<forall>v. prop_dtstart ev = Some v \<longrightarrow> normalize v \<noteq> Inl OverflowError)
            \<and> (\<forall>v. prop_dtend ev = Some v \<longrightarrow> normalize v \<noteq> Inl OverflowError)"
    by (simp add: allday_feed_def vevents_def vcalendar_def vevent_def physics_event_def)
  from date_value_aborts_parse [OF 1 2 3, THEN conjunct2, THEN conjunct2, THEN mp, OF 4]
  show ?thesis .
qed

subsection \<open>Properties of the resolver\<close>

lemma scan_loop_current:
  "fst (scan_loop now cs nxt) = find (ongoing now) cs"
  by (induction cs arbitrary: nxt) (auto split: option.splits)

lemma scan_loop_break:
  assumes "ongoing now a"
  shows "scan_loop now (pre @ a # post) nxt = scan_loop now (pre @ [a]) nxt"
  using assms by (induction pre arbitrary: nxt) (auto split: option.splits)

lemma scan_loop_next:
  assumes "\<forall>c \<in> set cs. \<not> ongoing now c"
  shows "case snd (scan_loop now cs nxt) of
           None \<Rightarrow> nxt = None \<and> (\<forall>c \<in> set cs. \<not> upcoming now c)
         | Some n \<Rightarrow>
             (nxt = Some n \<or> (n \<in> set cs \<and> upcoming now n))
             \<and> (\<forall>c \<in> set cs. upcoming now c \<longrightarrow> dt_le (start_time n) (start_time c))
             \<and> (\<forall>m. nxt = Some m \<longrightarrow> dt_le (start_time n) (start_time m))"
  using assms
proof (induction cs arbitrary: nxt)
  case Nil
  then show ?case by (simp add: dt_le_def split: option.splits)
next
  case (Cons c cs)
  from Cons.prems have rest: "\<forall>c \<in> set cs. \<not> ongoing now c" and c: "\<not> ongoing now c"
    by simp_all
  note IH = Cons.IH [OF rest]
  show ?case
  proof (cases "upcoming now c")
    case False
    with c IH [of nxt] show ?thesis
      by (auto split: option.splits)
  next
    case up: True
    show ?thesis
    proof (cases nxt)
      case None
      with c up IH [of "Some c"] show ?thesis
        by (auto split: option.splits)
    next
      case (Some m)
      show ?thesis
      proof (cases "dt_lt (start_time c) (start_time m)")
        case True
        with c up Some IH [of "Some c"] show ?thesis
          by (auto simp: dt_le_def dt_lt_def split: option.splits)
      next
        case False
        with c up Some IH [of "Some m"] show ?thesis
          by (auto simp: dt_le_def dt_lt_def split: option.splits)
      qed
    qed
  qed
qed

lemma find_ongoing_today:
  "find (ongoing now) (today_courses courses now) = Some e \<Longrightarrow>
     e \<in> set courses \<and> same_day now e \<and> ongoing now e"
  by (auto simp: find_Some_iff today_courses_def dest: nth_mem)

lemma today_courses_idem:
  "today_courses (filter (same_day now) courses) now = today_courses courses now"
  by (simp add: today_courses_def)

lemma td_seconds_minutes:
  assumes "0 \<le> d" and "d < timedelta_days 1"
  shows "td_seconds d div 60 = d div timedelta_minutes 1"
proof -
  from assms have "0 \<le> d" "d < 86400000000"
    by (simp_all add: timedelta_days_def)
  then have "0 \<le> d div 1000000" "d div 1000000 < 86400"
    by arith+
  then have "td_seconds d = d div 1000000"
    by (simp add: td_seconds_def)
  moreover have "d div 60000000 = (d div 1000000) div 60"
    using zdiv_zmult2_eq [of 60 d 1000000] by simp
  ultimately show ?thesis by (simp add: timedelta_minutes_def)
qed

subsection \<open>The status of a user (C1)\<close>

text \<open>
  C1, as amended. The status resolution looks only at the courses whose start is on the day
  of \<open>now\<close> (the other ones can be removed without changing the result). If one of them has
  start \<le> now < end, the result is Ongoing for such a course. If none has, but one starts
  after now, the result is Upcoming for a course of least start among those. Otherwise the
  result is None. The result holds the course and no duration: the minutes left or to wait
  are computed afterwards by the renderer, from its own reading \<open>now'\<close> of the clock. For a
  course \<open>c\<close> with start \<le> now' < end and less than a day left they are the whole minutes of
  end - now'; for a course that starts after now', less than a day later, they are the
  whole minutes of start - now'; a course that is over gets none.
\<close>

theorem statusAt_resolution:
  fixes c :: course
  shows
  "((\<exists>c \<in> set courses. same_day now c \<and> ongoing now c) \<longrightarrow>
      (\<exists>e. statusAt courses now = Ongoing e
           \<and> e \<in> set courses \<and> same_day now e \<and> ongoing now e))
 \<and> ((\<not> (\<exists>c \<in> set courses. same_day now c \<and> ongoing now c)
      \<and> (\<exists>c \<in> set courses. same_day now c \<and> upcoming now c)) \<longrightarrow>
      (\<exists>e. statusAt courses now = Upcoming e
           \<and> e \<in> set courses \<and> same_day now e \<and> upcoming now e
           \<and> (\<forall>c \<in> set courses. same_day now c \<and> upcoming now c \<longrightarrow>
                 dt_le (start_time e) (start_time c))))
 \<and> ((\<not> (\<exists>c \<in> set courses. same_day now c \<and> ongoing now c)
      \<and> \<not> (\<exists>c \<in> set courses. same_day now c \<and> upcoming now c)) \<longrightarrow>
      statusAt courses now = NoStatus)
 \<and> statusAt courses now = statusAt (filter (same_day now) courses) now
 \<and> (ongoing now' c \<and> dt_sub (end_time c) now' < timedelta_days 1 \<longrightarrow>
      row_status now' c = InProgress (dt_sub (end_time c) now' div timedelta_minutes 1))
 \<and> (upcoming now' c \<and> dt_sub (start_time c) now' < timedelta_days 1 \<longrightarrow>
      row_status now' c = NextLesson (dt_sub (start_time c) now' div timedelta_minutes 1))
 \<and> (\<not> ongoing now' c \<and> \<not> upcoming now' c \<longrightarrow> row_status now' c = Finished)"
proof -
  let ?today = "today_courses courses now"
  obtain cur nxt where scan: "scan_loop now ?today None = (cur, nxt)"
    by (cases "scan_loop now ?today None")
  have cur: "cur = find (ongoing now) ?today"
    using scan_loop_current [of now ?today None] scan by simp
  have today: "set ?today = {c \<in> set courses. same_day now c}"
    by (auto simp: today_courses_def)
  have A: "\<exists>e. statusAt courses now = Ongoing e
             \<and> e \<in> set courses \<and> same_day now e \<and> ongoing now e"
    if "\<exists>c \<in> set courses. same_day now c \<and> ongoing now c"
  proof -
    from that today have "\<exists>c \<in> set ?today. ongoing now c" by blast
    then obtain e where e: "find (ongoing now) ?today = Some e"
      by (cases "find (ongoing now) ?today") (auto simp: find_None_iff)
    from find_ongoing_today [OF e] e cur scan show ?thesis
      by (simp add: statusAt_def)
  qed
  have none: "cur = None \<and> (\<forall>c \<in> set ?today. \<not> ongoing now c)"
    if "\<not> (\<exists>c \<in> set courses. same_day now c \<and> ongoing now c)"
    using that today cur by (auto simp: find_None_iff)
  have B: "\<exists>e. statusAt courses now = Upcoming e
             \<and> e \<in> set courses \<and> same_day now e \<and> upcoming now e
             \<and> (\<forall>c \<in> set courses. same_day now c \<and> upcoming now c \<longrightarrow>
                   dt_le (start_time e) (start_time c))"
    if no: "\<not> (\<exists>c \<in> set courses. same_day now c \<and> ongoing now c)"
      and up: "\<exists>c \<in> set courses. same_day now c \<and> upcoming now c"
  proof -
    from none [OF no] have c0: "cur = None" and q: "\<forall>c \<in> set ?today. \<not> ongoing now c"
      by simp_all
    from up today have ex: "\<exists>c \<in> set ?today. upcoming now c" by blast
    from scan_loop_next [OF q, of None] scan ex obtain n where n: "nxt = Some n"
      and mem: "n \<in> set ?today" and upn: "upcoming now n"
      and least: "\<forall>c \<in> set ?today. upcoming now c \<longrightarrow> dt_le (start_time n) (start_time c)"
      by (cases nxt) auto
    from mem today have "n \<in> set courses" "same_day now n" by auto
    moreover from least today
    have "\<forall>c \<in> set courses. same_day now c \<and> upcoming now c \<longrightarrow>
            dt_le (start_time n) (start_time c)" by blast
    moreover have "statusAt courses now = Upcoming n"
      using scan c0 n by (simp add: statusAt_def)
    ultimately show ?thesis using upn by blast
  qed
  have C: "statusAt courses now = NoStatus"
    if no: "\<not> (\<exists>c \<in> set courses. same_day now c \<and> ongoing now c)"
      and nup: "\<not> (\<exists>c \<in> set courses. same_day now c \<and> upcoming now c)"
  proof -
    from none [OF no] have c0: "cur = None" and q: "\<forall>c \<in> set ?today. \<not> ongoing now c"
      by simp_all
    from nup today have "\<forall>c \<in> set ?today. \<not> upcoming now c" by blast
    with scan_loop_next [OF q, of None] scan have "nxt = None"
      by (cases nxt) auto
    with scan c0 show ?thesis by (simp add: statusAt_def)
  qed
  have D: "statusAt courses now = statusAt (filter (same_day now) courses) now"
    by (simp add: statusAt_def today_courses_idem)
  have E: "row_status now' c = InProgress (dt_sub (end_time c) now' div timedelta_minutes 1)"
    if "ongoing now' c \<and> dt_sub (end_time c) now' < timedelta_days 1"
  proof -
    from that have "0 \<le> dt_sub (end_time c) now'"
      by (simp add: dt_sub_def dt_lt_def)
    from td_seconds_minutes [OF this] that show ?thesis
      by (simp add: row_status_def)
  qed
  have F: "row_status now' c = NextLesson (dt_sub (start_time c) now' div timedelta_minutes 1)"
    if "upcoming now' c \<and> dt_sub (start_time c) now' < timedelta_days 1"
  proof -
    from that have "0 \<le> dt_sub (start_time c) now'"
      by (simp add: dt_sub_def dt_lt_def)
    from td_seconds_minutes [OF this] that show ?thesis
      by (simp add: row_status_def dt_le_def dt_lt_def)
  qed
  have G: "row_status now' c = Finished" if "\<not> ongoing now' c \<and> \<not> upcoming now' c"
    using that by (simp add: row_status_def)
  from A B C D E F G show ?thesis by blast
qed

lemma find_skip_prefix:
  "\<forall>x \<in> set xs. \<not> P x \<Longrightarrow> find P (xs @ ys) = find P ys"
  by (induction xs) auto

lemmas example_time_defs =
  clock_at_def timedelta_days_def timedelta_hours_def shanghai_tz_def shanghai_time_def
  lesson_def date_def utc_def dt_le_def dt_lt_def dt_sub_def

theorem statusAt_resolution_witness:
  "statusAt timetable (shanghai_time 739000 9 30) =
     Ongoing (lesson ''Math'' (clock_at 739000 9 0) (clock_at 739000 10 0))
 \<and> row_status (shanghai_time 739000 9 30)
       (lesson ''Math'' (clock_at 739000 9 0) (clock_at 739000 10 0)) = InProgress 30
 \<and> statusAt timetable (shanghai_time 739000 10 5) =
     Upcoming (lesson ''Physics'' (clock_at 739000 10 15) (clock_at 739000 11 15))
 \<and> row_status (shanghai_time 739000 10 5)
       (lesson ''Physics'' (clock_at 739000 10 15) (clock_at 739000 11 15)) = NextLesson 10
 \<and> statusAt timetable (shanghai_time 739000 12 0) = NoStatus
 \<and> row_status (shanghai_time 739000 12 0)
       (lesson ''Physics'' (clock_at 739000 10 15) (clock_at 739000 11 15)) = Finished"
proof -
  let ?math = "lesson ''Math'' (clock_at 739000 9 0) (clock_at 739000 10 0)"
  let ?physics = "lesson ''Physics'' (clock_at 739000 10 15) (clock_at 739000 11 15)"
  have t: "set timetable = {?math, ?physics}" by (simp add: timetable_def)
  have 1: "statusAt timetable (shanghai_time 739000 9 30) = Ongoing ?math
         \<and> row_status (shanghai_time 739000 9 30) ?math = InProgress 30"
  proof -
    let ?now = "shanghai_time 739000 9 30"
    have m: "same_day ?now ?math \<and> ongoing ?now ?math" by (simp add: example_time_defs)
    have p: "\<not> ongoing ?now ?physics" by (simp add: example_time_defs)
    have d: "dt_sub (end_time ?math) ?now < timedelta_days 1"
      "dt_sub (end_time ?math) ?now div timedelta_minutes 1 = 30"
      by (simp_all add: example_time_defs timedelta_minutes_def)
    note inst = statusAt_resolution
                  [where courses = timetable and now = ?now and now' = ?now and c = ?math]
    from m t have "\<exists>c \<in> set timetable. same_day ?now c \<and> ongoing ?now c" by auto
    with inst
    obtain e where e: "statusAt timetable ?now = Ongoing e"
      "e \<in> set timetable" "ongoing ?now e" by blast
    from e(2,3) t p have "e = ?math" by auto
    moreover from inst m d(1)
    have "row_status ?now ?math = InProgress (dt_sub (end_time ?math) ?now div timedelta_minutes 1)"
      by blast
    ultimately show ?thesis using e(1) d(2) by simp
  qed
  have 2: "statusAt timetable (shanghai_time 739000 10 5) = Upcoming ?physics
         \<and> row_status (shanghai_time 739000 10 5) ?physics = NextLesson 10"
  proof -
    let ?now = "shanghai_time 739000 10 5"
    have m: "\<not> ongoing ?now ?math \<and> \<not> upcoming ?now ?math" by (simp add: example_time_defs)
    have p: "same_day ?now ?physics \<and> upcoming ?now ?physics \<and> \<not> ongoing ?now ?physics"
      by (simp add: example_time_defs)
    have d: "dt_sub (start_time ?physics) ?now < timedelta_days 1"
      "dt_sub (start_time ?physics) ?now div timedelta_minutes 1 = 10"
      by (simp_all add: example_time_defs timedelta_minutes_def)
    note inst = statusAt_resolution
                  [where courses = timetable and now = ?now and now' = ?now and c = ?physics]
    from m p t have "\<not> (\<exists>c \<in> set timetable. same_day ?now c \<and> ongoing ?now c)" by auto
    moreover from p t have "\<exists>c \<in> set timetable. same_day ?now c \<and> upcoming ?now c" by auto
    ultimately obtain e
      where e: "statusAt timetable ?now = Upcoming e"
        "e \<in> set timetable" "upcoming ?now e"
      using inst by blast
    from e(2,3) t m have "e = ?physics" by auto
    moreover from inst p d(1)
    have "row_status ?now ?physics =
            NextLesson (dt_sub (start_time ?physics) ?now div timedelta_minutes 1)"
      by blast
    ultimately show ?thesis using e(1) d(2) by simp
  qed
  have 3: "statusAt timetable (shanghai_time 739000 12 0) = NoStatus
         \<and> row_status (shanghai_time 739000 12 0) ?physics = Finished"
  proof -
    let ?now = "shanghai_time 739000 12 0"
    have m: "\<not> ongoing ?now ?math \<and> \<not> upcoming ?now ?math" by (simp add: example_time_defs)
    have p: "\<not> ongoing ?now ?physics \<and> \<not> upcoming ?now ?physics"
      by (simp add: example_time_defs)
    note inst = statusAt_resolution
                  [where courses = timetable and now = ?now and now' = ?now and c = ?physics]
    from m p t have "\<not> (\<exists>c \<in> set timetable. same_day ?now c \<and> ongoing ?now c)"
      "\<not> (\<exists>c \<in> set timetable. same_day ?now c \<and> upcoming ?now c)" by auto
    with inst p show ?thesis by blast
  qed
  from 1 2 3 show ?thesis by simp
qed

text \<open>The claim as stated fails on the course \<open>camp\<close> at 09:30 of its first day: the result
  of the resolution holds the course and no duration, a day and 30 minutes (1470 minutes)
  are left, and the only duration that the code computes for it is 30 minutes. It fails on
  the Math course too when the renderer reads the clock a minute after the resolution: 30
  minutes are left at 09:30, and the duration computed is 29 minutes.\<close>

theorem remaining_duration_counterexample:
  "statusAt [camp] (shanghai_time 739000 9 30) = Ongoing camp
 \<and> dt_sub (end_time camp) (shanghai_time 739000 9 30) = timedelta_minutes 1470
 \<and> row_status (shanghai_time 739000 9 30) camp = InProgress 30
 \<and> statusAt timetable (shanghai_time 739000 9 30) =
     Ongoing (lesson ''Math'' (clock_at 739000 9 0) (clock_at 739000 10 0))
 \<and> dt_sub (end_time (lesson ''Math'' (clock_at 739000 9 0) (clock_at 739000 10 0)))
       (shanghai_time 739000 9 30) = timedelta_minutes 30
 \<and> row_status (shanghai_time 739000 9 31)
       (lesson ''Math'' (clock_at 739000 9 0) (clock_at 739000 10 0)) = InProgress 29"
  by (simp add: statusAt_def today_courses_def row_status_def td_seconds_def camp_def
        timetable_def timedelta_minutes_def example_time_defs)

subsection \<open>Overlapping courses (C2)\<close>

text \<open>
  C2. When several courses of the day contain \<open>now\<close>, the result is Ongoing for the one that
  comes first in the input sequence, whatever the starts of the later ones: the scan stops
  at it, so the courses after it have no influence on the result.
\<close>

theorem first_ongoing_in_feed_order:
  assumes "\<forall>c \<in> set pre. \<not> (same_day now c \<and> ongoing now c)"
    and "same_day now a" and "ongoing now a"
  shows "statusAt (pre @ a # post) now = Ongoing a
       \<and> statusAt (pre @ a # post) now = statusAt (pre @ [a]) now"
proof -
  have split: "today_courses (pre @ a # post) now =
                 today_courses pre now @ a # today_courses post now"
    and split': "today_courses (pre @ [a]) now = today_courses pre now @ [a]"
    using assms(2) by (simp_all add: today_courses_def)
  have "find (ongoing now) (today_courses pre now @ a # today_courses post now) = Some a"
    using assms(1,3) by (simp add: find_skip_prefix today_courses_def)
  then have "fst (scan_loop now (today_courses (pre @ a # post) now) None) = Some a"
    by (simp add: scan_loop_current split)
  then have "statusAt (pre @ a # post) now = Ongoing a"
    by (cases "scan_loop now (today_courses (pre @ a # post) now) None")
       (simp add: statusAt_def)
  moreover have "statusAt (pre @ a # post) now = statusAt (pre @ [a]) now"
    using scan_loop_break [OF assms(3), of "today_courses pre now" "today_courses post now" None]
    by (simp add: statusAt_def split split')
  ultimately show ?thesis by simp
qed

theorem first_ongoing_in_feed_order_witness:
  "dt_lt (start_time (lesson ''Workshop'' (clock_at 739000 8 0) (clock_at 739000 11 0)))
         (start_time (lesson ''Seminar'' (clock_at 739000 9 0) (clock_at 739000 10 0)))
 \<and> ongoing (shanghai_time 739000 9 30)
     (lesson ''Workshop'' (clock_at 739000 8 0) (clock_at 739000 11 0))
 \<and> statusAt overlapping (shanghai_time 739000 9 30) =
     Ongoing (lesson ''Seminar'' (clock_at 739000 9 0) (clock_at 739000 10 0))"
proof -
  let ?now = "shanghai_time 739000 9 30"
  let ?a = "lesson ''Seminar'' (clock_at 739000 9 0) (clock_at 739000 10 0)"
  let ?b = "lesson ''Workshop'' (clock_at 739000 8 0) (clock_at 739000 11 0)"
  have 1: "\<forall>c \<in> set []. \<not> (same_day ?now c \<and> ongoing ?now c)" by simp
  have 2: "same_day ?now ?a" by (simp add: example_time_defs)
  have 3: "ongoing ?now ?a" by (simp add: example_time_defs)
  have b: "dt_lt (start_time ?b) (start_time ?a) \<and> ongoing ?now ?b"
    by (simp add: example_time_defs)
  from first_ongoing_in_feed_order [OF 1 2 3, of "[?b]"] b show ?thesis
    by (simp add: overlapping_def)
qed

lemma sort_key_Nil_iff: "sort_key f xs = [] \<longleftrightarrow> xs = []"
  using length_sort [of f xs] by (cases xs) auto

subsection \<open>What is left today (C4)\<close>

text \<open>
  C4. For a bound user whose file parses, the reply of the single-user query is built from
  the view \<open>today_view\<close>: the plain message when the view is empty, else the image of the
  view. The view holds exactly the parsed courses (with their multiplicities) whose start is
  on the day of \<open>now\<close> and strictly after \<open>now\<close>; so no course of it has start \<le> now, even one
  that is still going on, and none is of another day.
\<close>

theorem today_view_exactly_remaining:
  assumes "group_id \<noteq> []" and "ud group_id = Some members"
    and "map_of members uid = Some nick"
    and "fs (ics_file_path uid nick group_id) = Some f"
    and "parse_ics_file f = Inr courses"
  shows "show_today_schedule ud fs uid group_id sender clock =
           Inr (if today_view courses (datetime_now clock) = [] then NoCoursesToday
                else UserImage (map (\<lambda>c. (c, nick)) (today_view courses (datetime_now clock)))
                       sender)
       \<and> mset (today_view courses (datetime_now clock)) =
           filter_mset (\<lambda>c. same_day (datetime_now clock) c \<and> upcoming (datetime_now clock) c)
             (mset courses)
       \<and> (\<forall>c \<in> set (today_view courses (datetime_now clock)).
             same_day (datetime_now clock) c \<and> \<not> dt_le (start_time c) (datetime_now clock))"
proof -
  have "show_today_schedule ud fs uid group_id sender clock =
           Inr (if today_view courses (datetime_now clock) = [] then NoCoursesToday
                else UserImage (map (\<lambda>c. (c, nick)) (today_view courses (datetime_now clock)))
                       sender)"
    using assms by (simp add: show_today_schedule_def Let_def today_view_def sort_key_Nil_iff)
  moreover have "mset (today_view courses (datetime_now clock)) =
           filter_mset (\<lambda>c. same_day (datetime_now clock) c \<and> upcoming (datetime_now clock) c)
             (mset courses)"
    by (simp add: today_view_def remaining_today_def)
  moreover have "\<forall>c \<in> set (today_view courses (datetime_now clock)).
             same_day (datetime_now clock) c \<and> \<not> dt_le (start_time c) (datetime_now clock)"
    by (auto simp: today_view_def remaining_today_def dt_le_def dt_lt_def)
  ultimately show ?thesis by blast
qed

lemma today_view_mixed:
  "today_view [lesson ''Math'' (clock_at 739000 9 0) (clock_at 739000 10 0),
               lesson ''Physics'' (clock_at 739000 10 15) (clock_at 739000 11 15)]
     (datetime_now (clock_at 739000 1 30)) =
   [lesson ''Physics'' (clock_at 739000 10 15) (clock_at 739000 11 15)]"
  by (simp add: today_view_def remaining_today_def datetime_now_def example_time_defs)

theorem today_view_exactly_remaining_witness:
  "show_today_schedule example_users example_files ''1'' ''100'' ''Ann'' (clock_at 739000 1 30) =
     Inr (UserImage [(lesson ''Physics'' (clock_at 739000 10 15) (clock_at 739000 11 15), ''Ann'')]
            ''Ann'')"
proof -
  have 1: "''100'' \<noteq> []" by simp
  have 2: "example_users ''100'' =
             Some [(''2'', ''Bob''), (''1'', ''Ann''), (''3'', ''Cy''), (''4'', ''Dan'')]"
    by (simp add: example_users_def)
  have 3: "map_of [(''2'', ''Bob''), (''1'', ''Ann''), (''3'', ''Cy''), (''4'', ''Dan'')] ''1''
             = Some ''Ann''" by simp
  have 4: "example_files (ics_file_path ''1'' ''Ann'' ''100'') = Some (Inr mixed_feed)"
    by (simp add: example_files_def ics_file_path_def)
  note 5 = parse_mixed_feed
  from today_view_exactly_remaining
         [where ud = example_users and fs = example_files and sender = "''Ann''"
            and clock = "clock_at 739000 1 30", OF 1 2 3 4 5]
  show ?thesis by (simp add: today_view_mixed)
qed

subsection \<open>Properties of the group query\<close>

lemma display_course_status:
  "display_course courses now =
     (case statusAt courses now of
        Ongoing e \<Rightarrow> Some e | Upcoming e \<Rightarrow> Some e | NoStatus \<Rightarrow> None)"
  by (simp add: display_course_def statusAt_def split: prod.splits option.splits)

lemma member_course_None:
  "member_course fs g now (fst m) (snd m) = Inr None \<longleftrightarrow>
     file_of fs g m = None
     \<or> (\<exists>f courses. file_of fs g m = Some f \<and> parse_ics_file f = Inr courses
           \<and> statusAt courses now = NoStatus)"
  by (auto simp: member_course_def display_course_status
      split: option.splits sum.splits ResolvedStatus.splits)

lemma member_course_Some:
  "member_course fs g now (fst m) (snd m) = Inr (Some r) \<longleftrightarrow> shown_as fs g now m r"
  by (auto simp: member_course_def display_course_status record_for_def shown_as_def
      split: option.splits sum.splits ResolvedStatus.splits)

lemma member_course_Inl:
  "member_course fs g now (fst m) (snd m) = Inl e \<longleftrightarrow>
     (\<exists>f. file_of fs g m = Some f \<and> parse_ics_file f = Inl e)"
  by (auto simp: member_course_def split: option.splits sum.splits)

lemma group_loop_Inr:
  "group_loop fs g now members acc = Inr out \<Longrightarrow>
     \<exists>rs. out = acc @ rs
       \<and> list_all2 (shown_as fs g now) (filter (shown fs g now) members) rs"
proof (induction members arbitrary: acc)
  case Nil
  then show ?case by simp
next
  case (Cons m rest)
  obtain uid nick where m: "m = (uid, nick)" by (cases m)
  show ?case
  proof (cases "member_course fs g now uid nick")
    case (Inl e)
    with Cons.prems m show ?thesis by simp
  next
    case (Inr x)
    show ?thesis
    proof (cases x)
      case None
      with Inr m have "member_course fs g now (fst m) (snd m) = Inr None" by simp
      then have hidden: "\<not> shown fs g now m"
        unfolding member_course_None by (auto simp: shown_def)
      from Cons.prems m Inr None have "group_loop fs g now rest acc = Inr out" by simp
      from Cons.IH [OF this] hidden show ?thesis by simp
    next
      case (Some r)
      with Inr m have "member_course fs g now (fst m) (snd m) = Inr (Some r)" by simp
      then have as: "shown_as fs g now m r"
        unfolding member_course_Some .
      then have visible: "shown fs g now m"
        by (auto simp: shown_def shown_as_def split: option.splits sum.splits)
      from Cons.prems m Inr Some have "group_loop fs g now rest (acc @ [r]) = Inr out" by simp
      from Cons.IH [OF this] obtain rs where "out = (acc @ [r]) @ rs"
        and "list_all2 (shown_as fs g now) (filter (shown fs g now) rest) rs" by blast
      with as visible show ?thesis
        by (intro exI [of _ "r # rs"]) simp
    qed
  qed
qed

lemma group_loop_skip_missing:
  "group_loop fs g now (filter (\<lambda>m. file_of fs g m \<noteq> None) members) acc =
     group_loop fs g now members acc"
proof (induction members arbitrary: acc)
  case Nil
  then show ?case by simp
next
  case (Cons m rest)
  obtain uid nick where m: "m = (uid, nick)" by (cases m)
  show ?case
  proof (cases "fs (ics_file_path uid nick g)")
    case None
    then have "member_course fs g now uid nick = Inr None"
      by (simp add: member_course_def)
    with None m Cons.IH show ?thesis by simp
  next
    case (Some f)
    with m Cons.IH show ?thesis
      by (simp split: sum.splits option.splits)
  qed
qed

lemma group_loop_all_missing:
  "\<forall>m \<in> set members. file_of fs g m = None \<Longrightarrow> group_loop fs g now members acc = Inr acc"
  by (induction members arbitrary: acc) (auto simp: member_course_def)

lemma show_group_schedule_Inr:
  assumes "group_id \<noteq> []" and "ud group_id = Some members"
    and "show_group_schedule ud fs group_id clock = Inr reply"
  shows "\<exists>next_courses.
           group_loop fs group_id (datetime_now clock) members [] = Inr next_courses
         \<and> reply = (if next_courses = [] then NobodyHasCourses
                    else GroupImage (sort_key (\<lambda>x. utc (start_time x)) next_courses))"
  using assms by (auto simp: show_group_schedule_def split: sum.splits if_splits)

subsection \<open>The group query on the examples\<close>

lemma parse_physics_feed:
  "parse_ics_file (Inr [vcalendar, physics_event]) =
     Inr [lesson ''Physics'' (clock_at 739000 10 15) (clock_at 739000 11 15)]"
  by (simp add: parse_ics_file_def vcalendar_def parse_physics_event)
     (simp add: physics_event_def vevent_def)

lemma parse_early_feed:
  "parse_ics_file (Inr early_feed) =
     Inr [lesson ''Art'' (clock_at 739000 8 0) (clock_at 739000 8 45)]"
  by (simp add: parse_ics_file_def early_feed_def vcalendar_def vevent_def parse_event_def
        lesson_def replace_tzinfo_def)

lemma parse_broken_feed: "parse_ics_file (Inr broken_feed) = Inl AttributeError"
  by (simp add: parse_ics_file_def broken_feed_def vcalendar_def)
     (simp add: vevent_def parse_event_def)

lemma parse_unreadable: "parse_ics_file (Inl e) = Inl e"
  by (simp add: parse_ics_file_def)

lemma example_files_100:
  "example_files (ics_file_path ''1'' ''Ann'' ''100'') = Some (Inr mixed_feed)"
  "example_files (ics_file_path ''2'' ''Bob'' ''100'') = Some (Inr [vcalendar, physics_event])"
  "example_files (ics_file_path ''3'' ''Cy'' ''100'') = None"
  "example_files (ics_file_path ''4'' ''Dan'' ''100'') = Some (Inr early_feed)"
  by (simp_all add: example_files_def ics_file_path_def)

lemma example_files_other:
  "example_files (ics_file_path ''5'' ''Eve'' ''200'') = Some (Inl UnicodeDecodeError)"
  "example_files (ics_file_path ''3'' ''Cy'' ''300'') = None"
  "example_files (ics_file_path ''6'' ''Fay'' ''400'') = Some (Inr broken_feed)"
  by (simp_all add: example_files_def ics_file_path_def)

lemma example_users_groups:
  "example_users ''100'' =
     Some [(''2'', ''Bob''), (''1'', ''Ann''), (''3'', ''Cy''), (''4'', ''Dan'')]"
  "example_users ''200'' = Some [(''5'', ''Eve'')]"
  "example_users ''300'' = Some [(''3'', ''Cy'')]"
  "example_users ''400'' = Some [(''6'', ''Fay'')]"
  "example_users ''500'' = None"
  by (simp_all add: example_users_def)

lemma status_examples:
  "statusAt [lesson ''Math'' (clock_at 739000 9 0) (clock_at 739000 10 0),
             lesson ''Physics'' (clock_at 739000 10 15) (clock_at 739000 11 15)]
     (datetime_now (clock_at 739000 1 30)) =
   Ongoing (lesson ''Math'' (clock_at 739000 9 0) (clock_at 739000 10 0))"
  "statusAt [lesson ''Physics'' (clock_at 739000 10 15) (clock_at 739000 11 15)]
     (datetime_now (clock_at 739000 1 30)) =
   Upcoming (lesson ''Physics'' (clock_at 739000 10 15) (clock_at 739000 11 15))"
  "statusAt [lesson ''Art'' (clock_at 739000 8 0) (clock_at 739000 8 45)]
     (datetime_now (clock_at 739000 1 30)) = NoStatus"
  by (simp_all add: statusAt_def today_courses_def datetime_now_def example_time_defs)

lemma member_course_examples:
  "member_course example_files ''100'' (datetime_now (clock_at 739000 1 30)) ''2'' ''Bob'' =
     Inr (Some (record_for (lesson ''Physics'' (clock_at 739000 10 15) (clock_at 739000 11 15))
                  ''2'' ''Bob''))"
  "member_course example_files ''100'' (datetime_now (clock_at 739000 1 30)) ''1'' ''Ann'' =
     Inr (Some (record_for (lesson ''Math'' (clock_at 739000 9 0) (clock_at 739000 10 0))
                  ''1'' ''Ann''))"
  "member_course example_files ''100'' (datetime_now (clock_at 739000 1 30)) ''3'' ''Cy'' =
     Inr None"
  "member_course example_files ''100'' (datetime_now (clock_at 739000 1 30)) ''4'' ''Dan'' =
     Inr None"
  by (simp_all add: member_course_def example_files_100 parse_mixed_feed parse_physics_feed
        parse_early_feed display_course_status status_examples record_for_def)

lemma group_100_reply:
  "show_group_schedule example_users example_files ''100'' (clock_at 739000 1 30) =
     Inr (GroupImage
       [record_for (lesson ''Math'' (clock_at 739000 9 0) (clock_at 739000 10 0)) ''1'' ''Ann'',
        record_for (lesson ''Physics'' (clock_at 739000 10 15) (clock_at 739000 11 15))
          ''2'' ''Bob''])"
  by (simp add: show_group_schedule_def example_users_groups member_course_examples)
     (simp add: record_for_def example_time_defs)

lemma shown_examples:
  "filter (shown example_files ''100'' (datetime_now (clock_at 739000 1 30)))
     [(''2'', ''Bob''), (''1'', ''Ann''), (''3'', ''Cy''), (''4'', ''Dan'')] =
   [(''2'', ''Bob''), (''1'', ''Ann'')]"
  by (simp add: shown_def example_files_100 parse_mixed_feed parse_physics_feed
        parse_early_feed status_examples)

subsection \<open>Who is shown in the group view (C5)\<close>

text \<open>
  C5, as amended. When the group query replies, its records, before they are sorted, are in
  the order of the bindings one record for every bound user whose feed file exists and whose
  status is Ongoing or Upcoming, and that record holds the course of the status with the
  user's id and nickname. A user whose status is None gets no record; when no user gets one,
  the reply is the plain message instead of an image.
\<close>

theorem group_records_for_shown_members:
  assumes "group_id \<noteq> []" and "ud group_id = Some members"
    and "show_group_schedule ud fs group_id clock = Inr reply"
  shows "\<exists>next_courses.
           list_all2 (shown_as fs group_id (datetime_now clock))
             (filter (shown fs group_id (datetime_now clock)) members) next_courses
         \<and> reply = (if next_courses = [] then NobodyHasCourses
                    else GroupImage (sort_key (\<lambda>x. utc (start_time x)) next_courses))"
proof -
  from show_group_schedule_Inr [OF assms] obtain next_courses
    where loop: "group_loop fs group_id (datetime_now clock) members [] = Inr next_courses"
      and reply: "reply = (if next_courses = [] then NobodyHasCourses
                    else GroupImage (sort_key (\<lambda>x. utc (start_time x)) next_courses))"
    by blast
  from group_loop_Inr [OF loop]
  have "list_all2 (shown_as fs group_id (datetime_now clock))
          (filter (shown fs group_id (datetime_now clock)) members) next_courses"
    by simp
  with reply show ?thesis by blast
qed

theorem group_records_for_shown_members_witness:
  "show_group_schedule example_users example_files ''100'' (clock_at 739000 1 30) =
     Inr (GroupImage
       [record_for (lesson ''Math'' (clock_at 739000 9 0) (clock_at 739000 10 0)) ''1'' ''Ann'',
        record_for (lesson ''Physics'' (clock_at 739000 10 15) (clock_at 739000 11 15))
          ''2'' ''Bob''])
 \<and> (\<exists>next_courses.
       list_all2 (shown_as example_files ''100'' (datetime_now (clock_at 739000 1 30)))
         [(''2'', ''Bob''), (''1'', ''Ann'')] next_courses
     \<and> GroupImage
          [record_for (lesson ''Math'' (clock_at 739000 9 0) (clock_at 739000 10 0)) ''1'' ''Ann'',
           record_for (lesson ''Physics'' (clock_at 739000 10 15) (clock_at 739000 11 15))
             ''2'' ''Bob''] =
        (if next_courses = [] then NobodyHasCourses
         else GroupImage (sort_key (\<lambda>x. utc (start_time x)) next_courses)))"
proof -
  have 1: "''100'' \<noteq> []" by simp
  note 2 = example_users_groups(1)
  note 3 = group_100_reply
  from group_records_for_shown_members
         [where ud = example_users and fs = example_files, OF 1 2 3]
  show ?thesis using 3 by (simp only: shown_examples simp_thms)
qed

text \<open>The claim as stated fails on group 100: the file of Dan exists and parses, the status of
  Dan is None, and the output has no record for Dan.\<close>

theorem none_status_dropped_counterexample:
  "example_files (ics_file_path ''4'' ''Dan'' ''100'') = Some (Inr early_feed)
 \<and> parse_ics_file (Inr early_feed) =
     Inr [lesson ''Art'' (clock_at 739000 8 0) (clock_at 739000 8 45)]
 \<and> statusAt [lesson ''Art'' (clock_at 739000 8 0) (clock_at 739000 8 45)]
     (datetime_now (clock_at 739000 1 30)) = NoStatus
 \<and> show_group_schedule example_users example_files ''100'' (clock_at 739000 1 30) =
     Inr (GroupImage
       [record_for (lesson ''Math'' (clock_at 739000 9 0) (clock_at 739000 10 0)) ''1'' ''Ann'',
        record_for (lesson ''Physics'' (clock_at 739000 10 15) (clock_at 739000 11 15))
          ''2'' ''Bob''])"
  by (simp only: example_files_100 parse_early_feed status_examples group_100_reply simp_thms)

subsection \<open>The order of the group view (C6)\<close>

text \<open>
  C6. The records of the image of the group query are sorted ascending by the start of the
  displayed course, which is the anchor of an Ongoing as of an Upcoming status. The sort is
  stable: the records are those collected in the order of the bindings, and the records of
  equal start keep that order. Every record belongs to a user whose status is Ongoing or
  Upcoming, so no record of status None comes before a dated one: the output has none.
\<close>

theorem group_image_sorted_stable:
  assumes "ud group_id = Some members"
    and "show_group_schedule ud fs group_id clock = Inr (GroupImage recs)"
  shows "sorted (map (\<lambda>r. utc (start_time r)) recs)
       \<and> (\<exists>next_courses.
            list_all2 (shown_as fs group_id (datetime_now clock))
              (filter (shown fs group_id (datetime_now clock)) members) next_courses
            \<and> mset recs = mset next_courses
            \<and> (\<forall>k. filter (\<lambda>r. utc (start_time r) = k) recs =
                    filter (\<lambda>r. utc (start_time r) = k) next_courses))
       \<and> (\<forall>r \<in> set recs. \<exists>m \<in> set members. shown_as fs group_id (datetime_now clock) m r)"
proof -
  from assms(2) have g: "group_id \<noteq> []"
    by (auto simp: show_group_schedule_def split: if_splits)
  from show_group_schedule_Inr [OF g assms] obtain next_courses
    where loop: "group_loop fs group_id (datetime_now clock) members [] = Inr next_courses"
      and recs: "recs = sort_key (\<lambda>x. utc (start_time x)) next_courses"
    by (auto split: if_splits)
  from group_loop_Inr [OF loop]
  have rel: "list_all2 (shown_as fs group_id (datetime_now clock))
          (filter (shown fs group_id (datetime_now clock)) members) next_courses"
    by simp
  have 1: "sorted (map (\<lambda>r. utc (start_time r)) recs)"
    unfolding recs by (rule sorted_sort_key)
  have 2: "mset recs = mset next_courses"
    unfolding recs by simp
  have 3: "\<forall>k. filter (\<lambda>r. utc (start_time r) = k) recs =
                 filter (\<lambda>r. utc (start_time r) = k) next_courses"
    unfolding recs by (simp add: sort_key_stable)
  have 4: "\<forall>r \<in> set recs. \<exists>m \<in> set members. shown_as fs group_id (datetime_now clock) m r"
  proof
    fix r assume "r \<in> set recs"
    with recs have "r \<in> set next_courses" by simp
    then obtain i where i: "i < length next_courses" "next_courses ! i = r"
      by (auto simp: in_set_conv_nth)
    let ?ms = "filter (shown fs group_id (datetime_now clock)) members"
    from rel i have "i < length ?ms" "shown_as fs group_id (datetime_now clock) (?ms ! i) r"
      by (auto simp: list_all2_conv_all_nth)
    moreover from this(1) have "?ms ! i \<in> set members"
      using nth_mem [of i ?ms] by auto
    ultimately show "\<exists>m \<in> set members. shown_as fs group_id (datetime_now clock) m r"
      by blast
  qed
  from 1 2 3 4 rel show ?thesis by blast
qed

theorem group_image_sorted_stable_witness:
  "show_group_schedule example_users example_files ''100'' (clock_at 739000 1 30) =
     Inr (GroupImage
       [record_for (lesson ''Math'' (clock_at 739000 9 0) (clock_at 739000 10 0)) ''1'' ''Ann'',
        record_for (lesson ''Physics'' (clock_at 739000 10 15) (clock_at 739000 11 15))
          ''2'' ''Bob''])
 \<and> sorted (map (\<lambda>r. utc (start_time r))
       [record_for (lesson ''Math'' (clock_at 739000 9 0) (clock_at 739000 10 0)) ''1'' ''Ann'',
        record_for (lesson ''Physics'' (clock_at 739000 10 15) (clock_at 739000 11 15))
          ''2'' ''Bob''])"
proof -
  note 1 = example_users_groups(1)
  note 2 = group_100_reply
  from group_image_sorted_stable
         [where ud = example_users and fs = example_files, OF 1 2, THEN conjunct1]
  show ?thesis using 2 by (intro conjI)
qed

subsection \<open>Bindings without a file (C7)\<close>

text \<open>
  C7, as amended. In the group query, every binding whose feed file does not exist is left
  out without any other effect: the query answers as it does for the group without these
  bindings. When no binding of the group has an existing file, or the group has no binding,
  the answer is a plain message and never an exception. (A file that exists and cannot be
  read or parsed is not left out: its exception ends the query.)
\<close>

theorem missing_files_omitted:
  "((group_id = [] \<or> ud group_id = None) \<longrightarrow>
      show_group_schedule ud fs group_id clock = Inr NobodyBound)
 \<and> (\<forall>members. group_id \<noteq> [] \<and> ud group_id = Some members \<longrightarrow>
      show_group_schedule ud fs group_id clock =
        show_group_schedule
          (ud(group_id \<mapsto> filter (\<lambda>m. file_of fs group_id m \<noteq> None) members)) fs group_id clock
      \<and> ((\<forall>m \<in> set members. file_of fs group_id m = None) \<longrightarrow>
            show_group_schedule ud fs group_id clock = Inr NobodyHasCourses))"
proof -
  have A: "show_group_schedule ud fs group_id clock = Inr NobodyBound"
    if "group_id = [] \<or> ud group_id = None"
    using that by (auto simp: show_group_schedule_def)
  have B: "show_group_schedule ud fs group_id clock =
        show_group_schedule
          (ud(group_id \<mapsto> filter (\<lambda>m. file_of fs group_id m \<noteq> None) members)) fs group_id clock"
    if "group_id \<noteq> []" "ud group_id = Some members" for members
    using that by (simp add: show_group_schedule_def group_loop_skip_missing del: not_None_eq)
  have C: "show_group_schedule ud fs group_id clock = Inr NobodyHasCourses"
    if "group_id \<noteq> []" "ud group_id = Some members"
      "\<forall>m \<in> set members. file_of fs group_id m = None" for members
    using that by (simp add: show_group_schedule_def group_loop_all_missing)
  from A B C show ?thesis by blast
qed

theorem missing_files_omitted_witness:
  "show_group_schedule example_users example_files ''100'' (clock_at 739000 1 30) =
     show_group_schedule
       (example_users(''100'' \<mapsto> [(''2'', ''Bob''), (''1'', ''Ann''), (''4'', ''Dan'')]))
       example_files ''100'' (clock_at 739000 1 30)
 \<and> show_group_schedule example_users example_files ''300'' (clock_at 739000 1 30) =
     Inr NobodyHasCourses
 \<and> show_group_schedule example_users example_files ''500'' (clock_at 739000 1 30) =
     Inr NobodyBound"
proof -
  let ?c = "clock_at 739000 1 30"
  note inst = missing_files_omitted [where ud = example_users and fs = example_files and clock = ?c]
  have g1: "''100'' \<noteq> [] \<and> example_users ''100'' =
              Some [(''2'', ''Bob''), (''1'', ''Ann''), (''3'', ''Cy''), (''4'', ''Dan'')]"
    by (simp add: example_users_groups)
  have f1: "filter (\<lambda>m. file_of example_files ''100'' m \<noteq> None)
              [(''2'', ''Bob''), (''1'', ''Ann''), (''3'', ''Cy''), (''4'', ''Dan'')] =
            [(''2'', ''Bob''), (''1'', ''Ann''), (''4'', ''Dan'')]"
    by (simp add: example_files_100)
  have g3: "''300'' \<noteq> [] \<and> example_users ''300'' = Some [(''3'', ''Cy'')]"
    by (simp add: example_users_groups)
  have f3: "\<forall>m \<in> set [(''3'', ''Cy'')]. file_of example_files ''300'' m = None"
    by (simp add: example_files_other)
  have g5: "''500'' = [] \<or> example_users ''500'' = None"
    by (simp add: example_users_groups)
  from inst [of "''100''", THEN conjunct2, rule_format, OF g1, THEN conjunct1]
  have 1: "show_group_schedule example_users example_files ''100'' ?c =
     show_group_schedule
       (example_users(''100'' \<mapsto> [(''2'', ''Bob''), (''1'', ''Ann''), (''4'', ''Dan'')]))
       example_files ''100'' ?c"
    by (simp only: f1)
  from inst [of "''300''", THEN conjunct2, rule_format, OF g3, THEN conjunct2, THEN mp, OF f3]
  have 3: "show_group_schedule example_users example_files ''300'' ?c = Inr NobodyHasCourses" .
  from inst [of "''500''", THEN conjunct1, rule_format, OF g5]
  have 5: "show_group_schedule example_users example_files ''500'' ?c = Inr NobodyBound" .
  from 1 3 5 show ?thesis by (intro conjI)
qed

text \<open>The claim as stated fails on groups 200 and 400: the only file of the group exists and
  cannot be read (resp. parsed), and the query ends with the exception instead of leaving
  the binding out and replying with the plain message.\<close>

theorem unreadable_file_raises_counterexample:
  "example_files (ics_file_path ''5'' ''Eve'' ''200'') = Some (Inl UnicodeDecodeError)
 \<and> show_group_schedule example_users example_files ''200'' (clock_at 739000 1 30) =
     Inl UnicodeDecodeError
 \<and> example_files (ics_file_path ''6'' ''Fay'' ''400'') = Some (Inr broken_feed)
 \<and> show_group_schedule example_users example_files ''400'' (clock_at 739000 1 30) =
     Inl AttributeError"
  by (simp add: show_group_schedule_def example_users_groups example_files_other
        member_course_def parse_broken_feed parse_unreadable)

end
